theory Spec2Isabelle
  imports Main "HOL-Library.Word" "HOL-Library.Sublist"
begin

unbundle bit_operations_syntax

section \<open>Python values, exceptions and strings\<close>

text \<open>
  The module \<open>zpod_component_add_nsx.py\<close> drives the NSX REST API and works on the
  decoded JSON bodies of its responses. A decoded body is a Python \<open>dict\<close>; it is
  modelled as an association list (keys in insertion order, each key once), its values
  as \<open>jval\<close>. JSON numbers with a fraction are outside the model.
\<close>

datatype jval =
    JNull
  | JBool bool
  | JInt int
  | JStr string
  | JArr "jval list"
  | JObj "(string \<times> jval) list"

type_synonym dict = "(string \<times> jval) list"

text \<open>
  An exception is its class name and the text \<open>str(e)\<close>; the module inspects nothing
  else of an exception.
\<close>

datatype exc = Exc (exc_class: string) (exc_str: string)

fun type_name :: "jval \<Rightarrow> string" where
  "type_name JNull = ''NoneType''"
| "type_name (JBool b) = ''bool''"
| "type_name (JInt n) = ''int''"
| "type_name (JStr s) = ''str''"
| "type_name (JArr xs) = ''list''"
| "type_name (JObj d) = ''dict''"

definition lower_char :: "char \<Rightarrow> char" where
  "lower_char c =
     (case map_of (zip ''ABCDEFGHIJKLMNOPQRSTUVWXYZ'' ''abcdefghijklmnopqrstuvwxyz'') c of
        None \<Rightarrow> c | Some d \<Rightarrow> d)"

definition upper_char :: "char \<Rightarrow> char" where
  "upper_char c =
     (case map_of (zip ''abcdefghijklmnopqrstuvwxyz'' ''ABCDEFGHIJKLMNOPQRSTUVWXYZ'') c of
        None \<Rightarrow> c | Some d \<Rightarrow> d)"

text \<open>\<open>str.lower()\<close> and \<open>str.upper()\<close> on ASCII text; other bytes are kept.\<close>

definition lower :: "string \<Rightarrow> string" where
  "lower s = map lower_char s"

definition upper :: "string \<Rightarrow> string" where
  "upper s = map upper_char s"

text \<open>\<open>sep.join(xs)\<close> on a list of strings.\<close>

fun join :: "string \<Rightarrow> string list \<Rightarrow> string" where
  "join sep [] = []"
| "join sep [x] = x"
| "join sep (x # y # ys) = x @ sep @ join sep (y # ys)"

text \<open>\<open>s.split(sep)\<close> for a one-character separator.\<close>

fun split_on :: "char \<Rightarrow> string \<Rightarrow> string list" where
  "split_on c [] = [[]]"
| "split_on c (x # xs) =
     (if x = c then [] # split_on c xs
      else (case split_on c xs of [] \<Rightarrow> [[x]] | g # gs \<Rightarrow> (x # g) # gs))"


section \<open>Python operations on decoded JSON\<close>

text \<open>\<open>d.get(k)\<close> and \<open>d.get(k, default)\<close>: Python's \<open>None\<close> is \<open>JNull\<close>.\<close>

definition dict_get :: "dict \<Rightarrow> string \<Rightarrow> jval" where
  "dict_get d k = (case map_of d k of None \<Rightarrow> JNull | Some v \<Rightarrow> v)"

definition dict_get_default :: "dict \<Rightarrow> string \<Rightarrow> jval \<Rightarrow> jval" where
  "dict_get_default d k dflt = (case map_of d k of None \<Rightarrow> dflt | Some v \<Rightarrow> v)"

text \<open>\<open>k in d\<close> for a dict \<open>d\<close>.\<close>

definition has_key :: "string \<Rightarrow> dict \<Rightarrow> bool" where
  "has_key k d = (map_of d k \<noteq> None)"

text \<open>\<open>d[k] = v\<close>: replaces the value of a present key, appends a new key.\<close>

fun dict_set :: "dict \<Rightarrow> string \<Rightarrow> jval \<Rightarrow> dict" where
  "dict_set [] k v = [(k, v)]"
| "dict_set ((k', v') # d) k v =
     (if k' = k then (k, v) # d else (k', v') # dict_set d k v)"

text \<open>Truth value of a JSON value, and of \<open>if existing:\<close> on a dict or \<open>None\<close>.\<close>

fun truthy :: "jval \<Rightarrow> bool" where
  "truthy JNull = False"
| "truthy (JBool b) = b"
| "truthy (JInt n) = (n \<noteq> 0)"
| "truthy (JStr s) = (s \<noteq> [])"
| "truthy (JArr xs) = (xs \<noteq> [])"
| "truthy (JObj d) = (d \<noteq> [])"

fun found :: "dict option \<Rightarrow> dict option" where
  "found None = None"
| "found (Some d) = (if d = [] then None else Some d)"

text \<open>
  The exceptions the interpreter itself raises, with the text of CPython 3.11.
  \<open>quoted s\<close> puts \<open>s\<close> between single quotes.
\<close>

definition quoted :: "string \<Rightarrow> string" where
  "quoted s = CHR 0x27 # s @ [CHR 0x27]"

definition attribute_error :: "jval \<Rightarrow> string \<Rightarrow> exc" where
  "attribute_error v a =
     Exc ''AttributeError''
       (quoted (type_name v) @ '' object has no attribute '' @ quoted a)"

definition key_error :: "string \<Rightarrow> exc" where
  "key_error k = Exc ''KeyError'' (quoted k)"

definition type_error :: "string \<Rightarrow> exc" where
  "type_error m = Exc ''TypeError'' m"

text \<open>\<open>for x in v\<close>: the items a loop over \<open>v\<close> visits.\<close>

fun py_iter :: "jval \<Rightarrow> exc + jval list" where
  "py_iter (JArr xs) = Inr xs"
| "py_iter (JObj d) = Inr (map (\<lambda>kv. JStr (fst kv)) d)"
| "py_iter (JStr s) = Inr (map (\<lambda>c. JStr [c]) s)"
| "py_iter v = Inl (type_error (quoted (type_name v) @ '' object is not iterable''))"

text \<open>\<open>"k" in v\<close> for a string literal \<open>k\<close>.\<close>

fun py_in :: "string \<Rightarrow> jval \<Rightarrow> exc + bool" where
  "py_in k (JObj d) = Inr (has_key k d)"
| "py_in k (JStr s) = Inr (sublist k s)"
| "py_in k (JArr xs) = Inr (JStr k \<in> set xs)"
| "py_in k v =
     Inl (type_error (''argument of type '' @ quoted (type_name v) @ '' is not iterable''))"

text \<open>\<open>v["k"]\<close> for a string literal \<open>k\<close>.\<close>

fun py_subscript :: "jval \<Rightarrow> string \<Rightarrow> exc + jval" where
  "py_subscript (JObj d) k =
     (case map_of d k of None \<Rightarrow> Inl (key_error k) | Some v \<Rightarrow> Inr v)"
| "py_subscript (JStr s) k =
     Inl (type_error (''string indices must be integers, not '' @ quoted ''str''))"
| "py_subscript (JArr xs) k =
     Inl (type_error ''list indices must be integers or slices, not str'')"
| "py_subscript v k =
     Inl (type_error (quoted (type_name v) @ '' object is not subscriptable''))"

text \<open>\<open>len(v)\<close>\<close>

fun py_len :: "jval \<Rightarrow> exc + nat" where
  "py_len (JStr s) = Inr (length s)"
| "py_len (JArr xs) = Inr (length xs)"
| "py_len (JObj d) = Inr (length d)"
| "py_len v =
     Inl (type_error (''object of type '' @ quoted (type_name v) @ '' has no len()''))"

text \<open>
  \<open>a == b\<close>: \<open>True\<close> and \<open>False\<close> are the integers 1 and 0, a string equals
  only the same string, lists compare item by item and dicts by content.
\<close>

fun num_of :: "jval \<Rightarrow> int option" where
  "num_of (JBool b) = Some (if b then 1 else 0)"
| "num_of (JInt n) = Some n"
| "num_of v = None"

fun py_eq :: "jval \<Rightarrow> jval \<Rightarrow> bool" where
  "py_eq (JStr a) y = (y = JStr a)"
| "py_eq JNull y = (y = JNull)"
| "py_eq (JBool a) y = (num_of y = Some (if a then 1 else 0))"
| "py_eq (JInt n) y = (num_of y = Some n)"
| "py_eq (JArr xs) y = (case y of JArr ys \<Rightarrow> list_all2 py_eq xs ys | _ \<Rightarrow> False)"
| "py_eq (JObj a) y =
     (case y of
        JObj b \<Rightarrow> length a = length b \<and>
          list_all (\<lambda>(k, v). case map_of b k of None \<Rightarrow> False | Some v' \<Rightarrow> py_eq v v') a
      | _ \<Rightarrow> False)"

text \<open>Decimal digits of a natural number and of an integer (\<open>str(n)\<close>).\<close>

fun show_nat :: "nat \<Rightarrow> string" where
  "show_nat n =
     (if n < 10 then [''0123456789'' ! n]
      else show_nat (n div 10) @ [''0123456789'' ! (n mod 10)])"

declare show_nat.simps [simp del]

definition show_int :: "int \<Rightarrow> string" where
  "show_int n = (if n < 0 then CHR ''-'' # show_nat (nat (- n)) else show_nat (nat n))"

text \<open>\<open>sep.join(items)\<close> raises on the first item that is not a string.\<close>

fun strings_of :: "nat \<Rightarrow> jval list \<Rightarrow> exc + string list" where
  "strings_of i [] = Inr []"
| "strings_of i (JStr s # vs) =
     (case strings_of (Suc i) vs of Inl e \<Rightarrow> Inl e | Inr ss \<Rightarrow> Inr (s # ss))"
| "strings_of i (v # vs) =
     Inl (type_error (''sequence item '' @ show_nat i @ '': expected str instance, ''
                      @ type_name v @ '' found''))"

definition py_join :: "string \<Rightarrow> jval list \<Rightarrow> exc + string" where
  "py_join sep items =
     (case strings_of 0 items of Inl e \<Rightarrow> Inl e | Inr ss \<Rightarrow> Inr (join sep ss))"

text \<open>\<open>v.split("/")[-1]\<close>: the text after the last slash of a string.\<close>

definition split_last :: "jval \<Rightarrow> exc + string" where
  "split_last v =
     (case v of
        JStr s \<Rightarrow> Inr (last (split_on CHR ''/'' s))
      | _ \<Rightarrow> Inl (attribute_error v ''split''))"

section \<open>The world outside the module\<close>

text \<open>
  \<open>NsxClient\<close>, the TLS socket, \<open>hashlib\<close> and the clock are not part of the module.
  A \<open>world\<close> holds what they answer and what the module has done so far:
  \<^item> \<open>responses w k\<close> is the outcome of the \<open>k\<close>-th REST request of the run: the request
    raises, or it returns a response whose \<open>safejson()\<close> raises or gives a dict;
  \<^item> \<open>latency w k\<close> is the time that request takes, in microseconds;
  \<^item> \<open>auth_by_zpod w\<close> is the exception \<open>NsxClient.auth_by_zpod\<close> raises, if any;
  \<^item> \<open>peer_cert w host\<close> is the outcome of the TLS connection to \<open>host\<close>;
  \<^item> \<open>sha256 w\<close> is the digest function;
  \<^item> \<open>repr_container w\<close> is \<open>str()\<close> on lists and dicts;
  \<^item> \<open>calls w\<close> are the requests issued so far, \<open>clock w\<close> is \<open>time.time()\<close> in
    microseconds.
  The module only ever changes \<open>calls\<close> and \<open>clock\<close>.
\<close>

datatype http_method = GET | POST | PUT

record request =
  rq_method :: http_method
  rq_url :: string
  rq_json :: "dict option"

record http_response =
  status_code :: int
  safejson :: "exc + dict"

record world =
  responses :: "nat \<Rightarrow> exc + http_response"
  latency :: "nat \<Rightarrow> nat"
  auth_by_zpod :: "exc option"
  peer_cert :: "string \<Rightarrow> exc + 8 word list"
  sha256 :: "8 word list \<Rightarrow> 256 word"
  repr_container :: "jval \<Rightarrow> string"
  calls :: "request list"
  clock :: int

definition http_get :: "string \<Rightarrow> request" where
  "http_get u = \<lparr>rq_method = GET, rq_url = u, rq_json = None\<rparr>"

definition http_post :: "string \<Rightarrow> dict option \<Rightarrow> request" where
  "http_post u body = \<lparr>rq_method = POST, rq_url = u, rq_json = body\<rparr>"

definition http_put :: "string \<Rightarrow> dict option \<Rightarrow> request" where
  "http_put u body = \<lparr>rq_method = PUT, rq_url = u, rq_json = body\<rparr>"

text \<open>\<open>nsx.get(...)\<close>, \<open>nsx.post(...)\<close>, \<open>nsx.put(...)\<close>: one request.\<close>

definition send :: "request \<Rightarrow> world \<Rightarrow> (exc + http_response) \<times> world" where
  "send rq w =
     (responses w (length (calls w)),
      w\<lparr>calls := calls w @ [rq],
        clock := clock w + int (latency w (length (calls w)))\<rparr>)"

text \<open>A request followed by \<open>response.safejson()\<close>.\<close>

definition fetch_json :: "request \<Rightarrow> world \<Rightarrow> (exc + dict) \<times> world" where
  "fetch_json rq w =
     (case send rq w of
        (Inl e, w') \<Rightarrow> (Inl e, w')
      | (Inr response, w') \<Rightarrow> (safejson response, w'))"

text \<open>\<open>time.sleep(s)\<close>\<close>

definition sleep :: "nat \<Rightarrow> world \<Rightarrow> world" where
  "sleep s w = w\<lparr>clock := clock w + int s * 1000000\<rparr>"

text \<open>\<open>str(v)\<close>, as an f-string applies it to a value it embeds.\<close>

definition py_str :: "world \<Rightarrow> jval \<Rightarrow> string" where
  "py_str w v =
     (case v of
        JStr s \<Rightarrow> s
      | JNull \<Rightarrow> ''None''
      | JBool b \<Rightarrow> (if b then ''True'' else ''False'')
      | JInt n \<Rightarrow> show_int n
      | _ \<Rightarrow> repr_container w v)"

section \<open>The certificate thumbprint\<close>

text \<open>
  \<open>hashlib.sha256(cert).hexdigest()\<close> writes the 32 bytes of the digest, most
  significant first, as two lower-case hexadecimal digits each.
\<close>

definition hexdigit :: "nat \<Rightarrow> char" where
  "hexdigit n = ''0123456789abcdef'' ! n"

definition digest_bytes :: "256 word \<Rightarrow> 8 word list" where
  "digest_bytes d = map (\<lambda>i. ucast (drop_bit (8 * (31 - i)) d)) [0..<32]"

definition hex_byte :: "8 word \<Rightarrow> string" where
  "hex_byte b = [hexdigit (unat b div 16), hexdigit (unat b mod 16)]"

definition hexdigest :: "256 word \<Rightarrow> string" where
  "hexdigest d = concat (map hex_byte (digest_bytes d))"

text \<open>\<open>thumbprint[i : i + 2] for i in range(0, len(thumbprint), 2)\<close>\<close>

fun pairs :: "string \<Rightarrow> string list" where
  "pairs [] = []"
| "pairs [a] = [[a]]"
| "pairs (a # b # r) = [a, b] # pairs r"

definition format_thumbprint :: "string \<Rightarrow> string" where
  "format_thumbprint thumbprint = join '':'' (map upper (pairs thumbprint))"

text \<open>
  \<open>get_ssl_thumbprint\<close>: the TLS connection either raises or hands over the peer's
  certificate in binary form.
\<close>

definition get_ssl_thumbprint :: "world \<Rightarrow> string \<Rightarrow> exc + string" where
  "get_ssl_thumbprint w hostname =
     (case peer_cert w hostname of
        Inl e \<Rightarrow> Inl e
      | Inr cert \<Rightarrow> Inr (format_thumbprint (hexdigest (sha256 w cert))))"

text \<open>The upper-case rendering of one byte, as the property states it.\<close>

definition upper_hex_byte :: "8 word \<Rightarrow> string" where
  "upper_hex_byte b =
     [''0123456789ABCDEF'' ! (unat b div 16), ''0123456789ABCDEF'' ! (unat b mod 16)]"

section \<open>Looking resources up\<close>

text \<open>
  The five \<open>get_existing_...\<close> functions share one shape: list the resources, walk
  through \<open>results\<close>, return the first item that matches, and answer \<open>None\<close> on any
  exception. \<open>first_match\<close> is the walk (\<open>item.get\<close> raises on an item that is not a
  dict), \<open>list_lookup\<close> the whole \<open>try\<close>.
\<close>

fun first_match :: "(dict \<Rightarrow> bool) \<Rightarrow> jval list \<Rightarrow> exc + dict option" where
  "first_match P [] = Inr None"
| "first_match P (JObj d # items) = (if P d then Inr (Some d) else first_match P items)"
| "first_match P (v # items) = Inl (attribute_error v ''get'')"

definition list_lookup :: "string \<Rightarrow> (dict \<Rightarrow> bool) \<Rightarrow> world \<Rightarrow> dict option \<times> world" where
  "list_lookup u P w =
     (case fetch_json (http_get u) w of
        (Inl e, w') \<Rightarrow> (None, w')
      | (Inr body, w') \<Rightarrow>
          (case py_iter (dict_get_default body ''results'' (JArr [])) of
             Inl e \<Rightarrow> (None, w')
           | Inr items \<Rightarrow>
               (case first_match P items of
                  Inl e \<Rightarrow> (None, w')
                | Inr r \<Rightarrow> (r, w'))))"

text \<open>
  \<open>if "path" not in d and "id" in d: d["path"] = f"{prefix}{d['id']}"\<close>
\<close>

definition ensure_path :: "world \<Rightarrow> string \<Rightarrow> dict \<Rightarrow> dict" where
  "ensure_path w pfx d =
     (if \<not> has_key ''path'' d \<and> has_key ''id'' d
      then dict_set d ''path'' (JStr (pfx @ py_str w (dict_get d ''id'')))
      else d)"

definition get_existing_compute_manager :: "string \<Rightarrow> world \<Rightarrow> dict option \<times> world" where
  "get_existing_compute_manager server_name w =
     list_lookup ''/api/v1/fabric/compute-managers''
       (\<lambda>cm. dict_get cm ''server'' = JStr server_name) w"

definition ip_block_prefix :: string where
  "ip_block_prefix = ''/api/v1/pools/ip-blocks/''"

definition get_existing_ip_block :: "string \<Rightarrow> world \<Rightarrow> dict option \<times> world" where
  "get_existing_ip_block display_name w =
     (case list_lookup ''/api/v1/pools/ip-blocks''
             (\<lambda>block. dict_get block ''display_name'' = JStr display_name) w of
        (r, w') \<Rightarrow> (map_option (ensure_path w ip_block_prefix) r, w'))"

definition ip_pool_prefix :: string where
  "ip_pool_prefix = ''/policy/api/v1/infra/ip-pools/''"

definition get_existing_ip_pool :: "string \<Rightarrow> world \<Rightarrow> dict option \<times> world" where
  "get_existing_ip_pool display_name w =
     (case list_lookup ''/policy/api/v1/infra/ip-pools''
             (\<lambda>pool. dict_get pool ''display_name'' = JStr display_name) w of
        (r, w') \<Rightarrow> (map_option (ensure_path w ip_pool_prefix) r, w'))"

definition get_existing_transport_node_profile ::
  "string \<Rightarrow> world \<Rightarrow> dict option \<times> world" where
  "get_existing_transport_node_profile display_name w =
     list_lookup ''/policy/api/v1/infra/host-transport-node-profiles''
       (\<lambda>tnp. dict_get tnp ''display_name'' = JStr display_name) w"

definition get_existing_host_transport_node_collection ::
  "string \<Rightarrow> world \<Rightarrow> dict option \<times> world" where
  "get_existing_host_transport_node_collection display_name w =
     list_lookup ''/api/v1/transport-node-collections''
       (\<lambda>htnc. dict_get htnc ''display_name'' = JStr display_name) w"

section \<open>Creating resources\<close>

record zpod =
  domain :: string
  password :: string

text \<open>The test the \<open>except\<close> clauses of four of the five \<open>create_...\<close> functions make.\<close>

definition duplicate_conflict :: "exc \<Rightarrow> bool" where
  "duplicate_conflict e =
     (sublist ''already exists'' (lower (exc_str e)) \<or> sublist ''duplicate'' (lower (exc_str e)))"

text \<open>The test of the \<open>except\<close> clause of \<open>create_compute_manager\<close>.\<close>

definition already_registered :: "exc \<Rightarrow> bool" where
  "already_registered e =
     (sublist ''already registered with NSX'' (exc_str e) \<or> sublist ''error_code'' (exc_str e))"

definition compute_manager_payload :: "string \<Rightarrow> string \<Rightarrow> string \<Rightarrow> string \<Rightarrow> dict" where
  "compute_manager_payload vsphere_hostname vsphere_username vsphere_password thumbprint =
     [(''description'', JStr ''Compute Manager''),
      (''display_name'', JStr vsphere_hostname),
      (''server'', JStr vsphere_hostname),
      (''create_service_account'', JBool True),
      (''set_as_oidc_provider'', JBool True),
      (''access_level_for_oidc'', JStr ''FULL''),
      (''credential'', JObj
         [(''credential_type'', JStr ''UsernamePasswordLoginCredential''),
          (''username'', JStr vsphere_username),
          (''password'', JStr vsphere_password),
          (''thumbprint'', JStr thumbprint)]),
      (''origin_type'', JStr ''vCenter'')]"

definition create_compute_manager :: "zpod \<Rightarrow> world \<Rightarrow> (exc + dict) \<times> world" where
  "create_compute_manager z w =
     (let vsphere_hostname = ''vcsa.'' @ domain z;
          vsphere_username = ''administrator@'' @ domain z
      in case get_ssl_thumbprint w vsphere_hostname of
           Inl e \<Rightarrow> (Inl e, w)
         | Inr vsphere_thumbprint \<Rightarrow>
             (case get_existing_compute_manager vsphere_hostname w of
                (existing_cm, w1) \<Rightarrow>
                  (case found existing_cm of
                     Some cm \<Rightarrow> (Inr cm, w1)
                   | None \<Rightarrow>
                       (case fetch_json
                               (http_post ''/api/v1/fabric/compute-managers''
                                  (Some (compute_manager_payload vsphere_hostname
                                           vsphere_username (password z) vsphere_thumbprint)))
                               w1 of
                          (Inr result, w2) \<Rightarrow> (Inr result, w2)
                        | (Inl e, w2) \<Rightarrow>
                            if already_registered e then
                              (case get_existing_compute_manager vsphere_hostname w2 of
                                 (again, w3) \<Rightarrow>
                                   (case found again of
                                      Some cm \<Rightarrow> (Inr cm, w3)
                                    | None \<Rightarrow> (Inl e, w3)))
                            else (Inl e, w2)))))"

definition ip_block_payload :: dict where
  "ip_block_payload =
     [(''resource_type'', JStr ''IpBlock''),
      (''display_name'', JStr ''ip-block-vtep''),
      (''cidr'', JStr ''172.16.20.0/24'')]"

definition create_ip_block :: "world \<Rightarrow> (exc + dict) \<times> world" where
  "create_ip_block w =
     (case get_existing_ip_block ''ip-block-vtep'' w of
        (existing_block, w1) \<Rightarrow>
          (case found existing_block of
             Some block \<Rightarrow> (Inr (ensure_path w ip_block_prefix block), w1)
           | None \<Rightarrow>
               (case fetch_json (http_post ''/api/v1/pools/ip-blocks'' (Some ip_block_payload)) w1 of
                  (Inr ip_block, w2) \<Rightarrow> (Inr (ensure_path w ip_block_prefix ip_block), w2)
                | (Inl e, w2) \<Rightarrow>
                    if duplicate_conflict e then
                      (case get_existing_ip_block ''ip-block-vtep'' w2 of
                         (again, w3) \<Rightarrow>
                           (case found again of
                              Some block \<Rightarrow> (Inr (ensure_path w ip_block_prefix block), w3)
                            | None \<Rightarrow> (Inl e, w3)))
                    else (Inl e, w2))))"

text \<open>\<open>display_name.lower().replace(" ", "-").replace("_", "-")\<close>\<close>

definition replace_char :: "char \<Rightarrow> char \<Rightarrow> string \<Rightarrow> string" where
  "replace_char a b s = map (\<lambda>c. if c = a then b else c) s"

definition ip_pool_payload :: dict where
  "ip_pool_payload =
     [(''resource_type'', JStr ''IpPool''), (''display_name'', JStr ''ip-pool-vtep'')]"

definition create_ip_pool :: "world \<Rightarrow> (exc + dict) \<times> world" where
  "create_ip_pool w =
     (case get_existing_ip_pool ''ip-pool-vtep'' w of
        (existing_pool, w1) \<Rightarrow>
          (case found existing_pool of
             Some pool \<Rightarrow> (Inr pool, w1)
           | None \<Rightarrow>
               (let pool_id = replace_char CHR ''_'' CHR ''-''
                                (replace_char CHR '' '' CHR ''-'' (lower ''ip-pool-vtep''))
                in case fetch_json
                          (http_put (''/policy/api/v1/infra/ip-pools/'' @ pool_id)
                             (Some ip_pool_payload)) w1 of
                     (Inr ip_pool, w2) \<Rightarrow> (Inr (ensure_path w ip_pool_prefix ip_pool), w2)
                   | (Inl e, w2) \<Rightarrow>
                       if duplicate_conflict e then
                         (case get_existing_ip_pool ''ip-pool-vtep'' w2 of
                            (again, w3) \<Rightarrow>
                              (case found again of
                                 Some pool \<Rightarrow> (Inr pool, w3)
                               | None \<Rightarrow> (Inl e, w3)))
                       else (Inl e, w2))))"

definition transport_node_profile_payload ::
  "jval \<Rightarrow> jval \<Rightarrow> jval \<Rightarrow> jval \<Rightarrow> jval \<Rightarrow> dict" where
  "transport_node_profile_payload ip_pool_path overlay_tz_path vlan_tz_path
       uplink_profile_path vsphere_dvs_id =
     [(''resource_type'', JStr ''TransportNodeProfile''),
      (''display_name'', JStr ''tnp''),
      (''host_switch_spec'', JObj
         [(''resource_type'', JStr ''StandardHostSwitchSpec''),
          (''host_switches'', JArr
             [JObj
                [(''host_switch_id'', vsphere_dvs_id),
                 (''host_switch_type'', JStr ''VDS''),
                 (''host_switch_mode'', JStr ''STANDARD''),
                 (''host_switch_profile_ids'', JArr
                    [JObj [(''key'', JStr ''UplinkHostSwitchProfile''),
                           (''value'', uplink_profile_path)]]),
                 (''transport_zone_endpoints'', JArr
                    [JObj [(''transport_zone_id'', overlay_tz_path),
                           (''transport_zone_profile_ids'', JArr [])],
                     JObj [(''transport_zone_id'', vlan_tz_path),
                           (''transport_zone_profile_ids'', JArr [])]]),
                 (''ip_assignment_spec'', JObj
                    [(''resource_type'', JStr ''StaticIpPoolSpec''),
                     (''ip_pool_id'', ip_pool_path)]),
                 (''uplinks'', JArr
                    [JObj [(''uplink_name'', JStr ''uplink1''),
                           (''vds_uplink_name'', JStr ''uplink1'')],
                     JObj [(''uplink_name'', JStr ''uplink2''),
                           (''vds_uplink_name'', JStr ''uplink2'')]])]])])]"

definition create_transport_node_profile ::
  "jval \<Rightarrow> jval \<Rightarrow> jval \<Rightarrow> jval \<Rightarrow> jval \<Rightarrow> world \<Rightarrow> (exc + dict) \<times> world" where
  "create_transport_node_profile ip_pool_path overlay_tz_path vlan_tz_path
       uplink_profile_path vsphere_dvs_id w =
     (case get_existing_transport_node_profile ''tnp'' w of
        (existing_tnp, w1) \<Rightarrow>
          (case found existing_tnp of
             Some tnp \<Rightarrow> (Inr tnp, w1)
           | None \<Rightarrow>
               (case fetch_json
                       (http_put (''/policy/api/v1/infra/host-transport-node-profiles/'' @ ''tnp'')
                          (Some (transport_node_profile_payload ip_pool_path overlay_tz_path
                                   vlan_tz_path uplink_profile_path vsphere_dvs_id))) w1 of
                  (Inr tnp, w2) \<Rightarrow> (Inr tnp, w2)
                | (Inl e, w2) \<Rightarrow>
                    if duplicate_conflict e then
                      (case get_existing_transport_node_profile ''tnp'' w2 of
                         (again, w3) \<Rightarrow>
                           (case found again of
                              Some tnp \<Rightarrow> (Inr tnp, w3)
                            | None \<Rightarrow> (Inl e, w3)))
                    else (Inl e, w2))))"

definition host_transport_node_collection_payload :: "jval \<Rightarrow> jval \<Rightarrow> dict" where
  "host_transport_node_collection_payload compute_collection_id tnp_path =
     [(''resource_type'', JStr ''HostTransportNodeCollection''),
      (''display_name'', JStr ''Host transport node collection''),
      (''compute_collection_id'', compute_collection_id),
      (''transport_node_profile_id'', tnp_path)]"

definition create_host_transport_node_collection ::
  "jval \<Rightarrow> jval \<Rightarrow> world \<Rightarrow> (exc + dict) \<times> world" where
  "create_host_transport_node_collection compute_collection_id tnp_path w =
     (case get_existing_host_transport_node_collection ''Host transport node collection'' w of
        (existing_htnc, w1) \<Rightarrow>
          (case found existing_htnc of
             Some htnc \<Rightarrow> (Inr htnc, w1)
           | None \<Rightarrow>
               (case fetch_json
                       (http_post ''/api/v1/transport-node-collections''
                          (Some (host_transport_node_collection_payload
                                   compute_collection_id tnp_path))) w1 of
                  (Inr htnc, w2) \<Rightarrow> (Inr htnc, w2)
                | (Inl e, w2) \<Rightarrow>
                    if duplicate_conflict e then
                      (case get_existing_host_transport_node_collection
                              ''Host transport node collection'' w2 of
                         (again, w3) \<Rightarrow>
                           (case found again of
                              Some htnc \<Rightarrow> (Inr htnc, w3)
                            | None \<Rightarrow> (Inl e, w3)))
                    else (Inl e, w2))))"

section \<open>Polling the compute manager\<close>

text \<open>
  The \<open>while\<close> loop of \<open>check_compute_manager_status\<close>, at the status URL \<open>u\<close>.
  It answers \<open>True\<close> when it has seen \<open>UP\<close> (the function returns from inside the
  loop) and \<open>False\<close> when the time is over. Every exception of the request is caught
  inside the loop. The loop ends because each round sleeps ten seconds.
\<close>

function cm_status_loop :: "string \<Rightarrow> int \<Rightarrow> int \<Rightarrow> world \<Rightarrow> bool \<times> world" where
  "cm_status_loop u start_time timeout w =
     (if clock w - start_time < timeout * 1000000 then
        (case fetch_json (http_get u) w of
           (Inr status_info, w1) \<Rightarrow>
             if dict_get status_info ''connection_status'' = JStr ''UP'' then (True, w1)
             else cm_status_loop u start_time timeout (sleep 10 w1)
         | (Inl e, w1) \<Rightarrow> cm_status_loop u start_time timeout (sleep 10 w1))
      else (False, w))"
  by pat_completeness auto
termination
  by (relation "measure (\<lambda>(u, start_time, timeout, w).
                  nat (start_time + timeout * 1000000 - clock w))")
     (auto simp: fetch_json_def send_def sleep_def split: sum.splits)

declare cm_status_loop.simps [simp del]

definition check_compute_manager_status ::
  "jval \<Rightarrow> int \<Rightarrow> world \<Rightarrow> (exc + unit) \<times> world" where
  "check_compute_manager_status compute_manager_id timeout w =
     (let u = ''/api/v1/fabric/compute-managers/'' @ py_str w compute_manager_id @ ''/status''
      in case cm_status_loop u (clock w) timeout w of
           (True, w1) \<Rightarrow> (Inr (), w1)
         | (False, w1) \<Rightarrow>
             (case fetch_json (http_get u) w1 of
                (Inr status_info, w2) \<Rightarrow>
                  if dict_get status_info ''connection_status'' = JStr ''UP'' then (Inr (), w2)
                  else (Inr (), w2)
              | (Inl final_e, w2) \<Rightarrow> (Inr (), w2)))"

section \<open>Waiting for the realization of the collection\<close>

text \<open>
  \<open>htnc_path.split("/")[-1] if "/" in htnc_path else htnc_path\<close>, as the f-string
  of the realized path prints it.
\<close>

definition htnc_id_of :: "world \<Rightarrow> jval \<Rightarrow> exc + string" where
  "htnc_id_of w htnc_path =
     (case py_in ''/'' htnc_path of
        Inl e \<Rightarrow> Inl e
      | Inr True \<Rightarrow> split_last htnc_path
      | Inr False \<Rightarrow> Inr (py_str w htnc_path))"

function htnc_loop :: "jval \<Rightarrow> int \<Rightarrow> int \<Rightarrow> world \<Rightarrow> (exc + bool) \<times> world" where
  "htnc_loop htnc_path start_time timeout w =
     (if clock w - start_time < timeout * 1000000 then
        (case htnc_id_of w htnc_path of
           Inl e \<Rightarrow> (Inl e, w)
         | Inr htnc_id \<Rightarrow>
             (case fetch_json
                     (http_get (''/policy/api/v1/infra/realized-state/realized-entity?realized_path=''
                        @ ''/infra/realized-state/enforcement-points/default/transport-node-collections/''
                        @ htnc_id)) w of
                (Inl e, w1) \<Rightarrow> (Inl e, w1)
              | (Inr state, w1) \<Rightarrow>
                  if dict_get state ''state'' = JStr ''REALIZED'' then (Inr True, w1)
                  else htnc_loop htnc_path start_time timeout (sleep 10 w1)))
      else (Inr False, w))"
  by pat_completeness auto
termination
  by (relation "measure (\<lambda>(p, start_time, timeout, w).
                  nat (start_time + timeout * 1000000 - clock w))")
     (auto simp: fetch_json_def send_def sleep_def split: sum.splits)

declare htnc_loop.simps [simp del]

definition wait_for_htnc_realization :: "jval \<Rightarrow> int \<Rightarrow> world \<Rightarrow> (exc + unit) \<times> world" where
  "wait_for_htnc_realization htnc_path timeout w =
     (case htnc_loop htnc_path (clock w) timeout w of
        (Inl e, w1) \<Rightarrow> (Inl e, w1)
      | (Inr True, w1) \<Rightarrow> (Inr (), w1)
      | (Inr False, w1) \<Rightarrow>
          (Inl (Exc ''TimeoutError''
                  (''Timeout: Host Transport Node Collection '' @ py_str w htnc_path
                   @ '' not realized after '' @ show_int timeout @ ''s'')), w1))"

section \<open>Verifying that the hosts are prepared\<close>

datatype outcome = Ready | Preparing | Failed

text \<open>
  The chain of tests \<open>verify_nsx_configuration_status\<close> applies to the status of one
  node. \<open>None\<close>: the status has no \<open>"status"\<close> key and no branch is taken.
\<close>

definition deployment_marker :: "jval \<Rightarrow> exc + bool" where
  "deployment_marker deployment_status =
     (case py_in ''ERROR'' deployment_status of
        Inl e \<Rightarrow> Inl e
      | Inr True \<Rightarrow> Inr True
      | Inr False \<Rightarrow> py_in ''FAIL'' deployment_status)"

definition has_deployment_status :: "dict \<Rightarrow> exc + bool" where
  "has_deployment_status status_data =
     (if has_key ''node_status'' status_data
      then py_in ''host_node_deployment_status'' (dict_get status_data ''node_status'')
      else Inr False)"

definition classify_status :: "dict \<Rightarrow> exc + outcome option" where
  "classify_status status_data =
     (if has_key ''status'' status_data then
        (let status = dict_get status_data ''status'' in
         case has_deployment_status status_data of
           Inl e \<Rightarrow> Inl e
         | Inr True \<Rightarrow>
             (case py_subscript (dict_get status_data ''node_status'')
                     ''host_node_deployment_status'' of
                Inl e \<Rightarrow> Inl e
              | Inr deployment_status \<Rightarrow>
                  if deployment_status = JStr ''INSTALL_SUCCESSFUL'' \<and> status = JStr ''UP''
                  then Inr (Some Ready)
                  else if deployment_status = JStr ''INSTALL_SUCCESSFUL'' \<and> status \<noteq> JStr ''UP''
                  then Inr (Some Preparing)
                  else (case deployment_marker deployment_status of
                          Inl e \<Rightarrow> Inl e
                        | Inr True \<Rightarrow> Inr (Some Failed)
                        | Inr False \<Rightarrow> Inr (Some Preparing)))
         | Inr False \<Rightarrow>
             if status = JStr ''UP'' then Inr (Some Ready)
             else if status = JStr ''DOWN'' then Inr (Some Failed)
             else if status = JStr ''DEGRADED'' then Inr (Some Preparing)
             else if status = JStr ''UNKNOWN'' then Inr (Some Preparing)
             else Inr (Some Preparing))
      else Inr None)"

text \<open>The three lists the loop over the nodes keeps.\<close>

record tally =
  all_ready :: bool
  failed_nodes :: "jval list"
  preparing_hosts :: "jval list"

definition record_outcome :: "outcome option \<Rightarrow> jval \<Rightarrow> tally \<Rightarrow> tally" where
  "record_outcome oc display_name t =
     (case oc of
        None \<Rightarrow> t
      | Some Ready \<Rightarrow> t
      | Some Preparing \<Rightarrow>
          t\<lparr>preparing_hosts := preparing_hosts t @ [display_name], all_ready := False\<rparr>
      | Some Failed \<Rightarrow>
          t\<lparr>failed_nodes := failed_nodes t @ [display_name], all_ready := False\<rparr>)"

text \<open>The \<open>except\<close> clause of the status request of one node.\<close>

definition record_fetch_error :: "jval \<Rightarrow> tally \<Rightarrow> tally" where
  "record_fetch_error display_name t =
     t\<lparr>failed_nodes := failed_nodes t @ [display_name],
       preparing_hosts := preparing_hosts t @ [display_name],
       all_ready := False\<rparr>"

text \<open>The prints after the classification; \<open>len\<close> can raise.\<close>

definition status_prints :: "dict \<Rightarrow> exc + unit" where
  "status_prints status_data =
     (if has_key ''transport_zone_endpoints'' status_data then
        (case py_len (dict_get status_data ''transport_zone_endpoints'') of
           Inl e \<Rightarrow> Inl e
         | Inr tz_count \<Rightarrow> Inr ())
      else Inr ())"

definition unbound_status_data :: exc where
  "unbound_status_data =
     Exc ''UnboundLocalError''
       (''cannot access local variable '' @ quoted ''status_data''
        @ '' where it is not associated with a value'')"

text \<open>
  One round of the loop over the relevant nodes. \<open>status_data\<close> is a local variable of
  the function: it has no value before the first successful status request (\<open>None\<close>
  here) and keeps its last value afterwards, over nodes and attempts. When the status
  request raises, the \<open>except\<close> clause records the node and the code goes on with
  whatever \<open>status_data\<close> holds.
\<close>

definition node_step ::
  "dict \<Rightarrow> tally \<Rightarrow> dict option \<Rightarrow> world \<Rightarrow> (exc + tally) \<times> dict option \<times> world" where
  "node_step node t sd w =
     (let node_id = dict_get_default node ''id'' (JStr ''Unknown'');
          display_name = dict_get_default node ''display_name'' (JStr ''Unknown'')
      in case fetch_json
                (http_get (''/api/v1/transport-nodes/'' @ py_str w node_id @ ''/status'')) w of
           (r, w1) \<Rightarrow>
             (let t1 = (case r of Inr status_data \<Rightarrow> t
                        | Inl e \<Rightarrow> record_fetch_error display_name t);
                  sd1 = (case r of Inr status_data \<Rightarrow> Some status_data | Inl e \<Rightarrow> sd)
              in case sd1 of
                   None \<Rightarrow> (Inl unbound_status_data, sd1, w1)
                 | Some status_data \<Rightarrow>
                     (case classify_status status_data of
                        Inl e \<Rightarrow> (Inl e, sd1, w1)
                      | Inr oc \<Rightarrow>
                          (case status_prints status_data of
                             Inl e \<Rightarrow> (Inl e, sd1, w1)
                           | Inr u \<Rightarrow> (Inr (record_outcome oc display_name t1), sd1, w1)))))"

fun node_loop ::
  "dict list \<Rightarrow> tally \<Rightarrow> dict option \<Rightarrow> world \<Rightarrow> (exc + tally) \<times> dict option \<times> world" where
  "node_loop [] t sd w = (Inr t, sd, w)"
| "node_loop (node # nodes) t sd w =
     (case node_step node t sd w of
        (Inl e, sd', w') \<Rightarrow> (Inl e, sd', w')
      | (Inr t', sd', w') \<Rightarrow> node_loop nodes t' sd' w')"

text \<open>Filtering the transport nodes of the compute collection.\<close>

definition node_cc_id :: "dict \<Rightarrow> exc + jval" where
  "node_cc_id node =
     (let v = dict_get node ''compute_collection_id'' in
      if \<not> truthy v \<and> has_key ''node_deployment_info'' node then
        (case dict_get node ''node_deployment_info'' of
           JObj info \<Rightarrow> Inr (dict_get info ''compute_collection_id'')
         | x \<Rightarrow> Inl (attribute_error x ''get''))
      else Inr v)"

fun relevant_nodes :: "jval \<Rightarrow> jval list \<Rightarrow> exc + dict list" where
  "relevant_nodes compute_collection_id [] = Inr []"
| "relevant_nodes compute_collection_id (JObj node # nodes) =
     (case node_cc_id node of
        Inl e \<Rightarrow> Inl e
      | Inr cc \<Rightarrow>
          (case relevant_nodes compute_collection_id nodes of
             Inl e \<Rightarrow> Inl e
           | Inr rs \<Rightarrow> Inr (if py_eq cc compute_collection_id then node # rs else rs)))"
| "relevant_nodes compute_collection_id (v # nodes) = Inl (attribute_error v ''get'')"

definition max_attempts :: nat where
  "max_attempts = 60"

datatype attempt_result = Done | Again

text \<open>
  The body of the \<open>try\<close> of one attempt. \<open>Done\<close>: the function returns. \<open>Again\<close>: the
  body has slept and the loop goes on.
\<close>

definition attempt_body ::
  "jval \<Rightarrow> nat \<Rightarrow> dict option \<Rightarrow> world \<Rightarrow> (exc + attempt_result) \<times> dict option \<times> world" where
  "attempt_body compute_collection_id attempt sd w =
     (case fetch_json (http_get ''/api/v1/transport-nodes'') w of
        (Inl e, w1) \<Rightarrow> (Inl e, sd, w1)
      | (Inr transport_nodes, w1) \<Rightarrow>
          (case py_iter (dict_get_default transport_nodes ''results'' (JArr [])) of
             Inl e \<Rightarrow> (Inl e, sd, w1)
           | Inr nodes \<Rightarrow>
               (case relevant_nodes compute_collection_id nodes of
                  Inl e \<Rightarrow> (Inl e, sd, w1)
                | Inr relevant \<Rightarrow>
                    if relevant = [] then
                      (if attempt < max_attempts then (Inr Again, sd, sleep 10 w1)
                       else (Inl (Exc ''Exception''
                                    ''No transport nodes found for compute collection''), sd, w1))
                    else
                      (case node_loop relevant
                              \<lparr>all_ready = True, failed_nodes = [], preparing_hosts = []\<rparr>
                              sd w1 of
                         (Inl e, sd', w2) \<Rightarrow> (Inl e, sd', w2)
                       | (Inr t, sd', w2) \<Rightarrow>
                           if failed_nodes t \<noteq> [] then
                             (case py_join '', '' (failed_nodes t) of
                                Inl e \<Rightarrow> (Inl e, sd', w2)
                              | Inr names \<Rightarrow>
                                  (Inl (Exc ''Exception''
                                          (''Host preparation failed for: '' @ names)), sd', w2))
                           else if all_ready t then (Inr Done, sd', w2)
                           else if attempt < max_attempts then (Inr Again, sd', sleep 10 w2)
                           else (Inl (Exc ''Exception''
                                        ''Timeout waiting for host preparation''), sd', w2)))))"

text \<open>The test of the \<open>except\<close> clause around an attempt.\<close>

definition mentions_failure :: "exc \<Rightarrow> bool" where
  "mentions_failure e =
     (sublist ''failed'' (lower (exc_str e)) \<or> sublist ''error'' (lower (exc_str e)))"

function verify_loop :: "jval \<Rightarrow> nat \<Rightarrow> dict option \<Rightarrow> world \<Rightarrow> (exc + unit) \<times> world" where
  "verify_loop compute_collection_id attempt sd w =
     (if attempt < max_attempts then
        (case attempt_body compute_collection_id (attempt + 1) sd w of
           (Inr Done, sd', w') \<Rightarrow> (Inr (), w')
         | (Inr Again, sd', w') \<Rightarrow> verify_loop compute_collection_id (attempt + 1) sd' w'
         | (Inl e, sd', w') \<Rightarrow>
             if mentions_failure e then (Inl e, w')
             else if attempt + 1 < max_attempts
             then verify_loop compute_collection_id (attempt + 1) sd' (sleep 10 w')
             else (Inl e, w'))
      else (Inr (), w))"
  by pat_completeness auto
termination
  by (relation "measure (\<lambda>(c, attempt, sd, w). max_attempts - attempt)") auto

declare verify_loop.simps [simp del]

definition verify_nsx_configuration_status :: "jval \<Rightarrow> world \<Rightarrow> (exc + unit) \<times> world" where
  "verify_nsx_configuration_status compute_collection_id w =
     verify_loop compute_collection_id 0 None w"

section \<open>The remaining steps\<close>

definition subnet_config :: "string \<Rightarrow> dict" where
  "subnet_config pool_id =
     [(''resource_type'', JStr ''IpAddressPoolStaticSubnet''),
      (''display_name'', JStr (''subnet-'' @ pool_id)),
      (''cidr'', JStr ''172.16.20.0/24''),
      (''dns_nameservers'', JArr []),
      (''allocation_ranges'', JArr
         [JObj [(''start'', JStr ''172.16.20.1''), (''end'', JStr ''172.16.20.128'')]])]"

definition create_block_subnet :: "jval \<Rightarrow> jval \<Rightarrow> world \<Rightarrow> (exc + dict) \<times> world" where
  "create_block_subnet pool_path block_path w =
     (case split_last pool_path of
        Inl e \<Rightarrow> (Inl e, w)
      | Inr pool_id \<Rightarrow>
          (case fetch_json (http_get (''/api/v1/infra/ip-pools/'' @ pool_id @ ''/ip-subnets'')) w of
             (Inl e, w1) \<Rightarrow> (Inl e, w1)
           | (Inr subnets, w1) \<Rightarrow>
               (let subnet_id = ''subnet-'' @ pool_id;
                    subnet_url = ''/api/v1/infra/ip-pools/'' @ pool_id @ ''/ip-subnets/'' @ subnet_id
                in case send (http_get subnet_url) w1 of
                     (Inr check_response, w2) \<Rightarrow>
                       if status_code check_response = 200 then (safejson check_response, w2)
                       else fetch_json (http_put subnet_url (Some (subnet_config pool_id))) w2
                   | (Inl e, w2) \<Rightarrow>
                       fetch_json (http_put subnet_url (Some (subnet_config pool_id))) w2)))"

definition uplink_profile_payload :: dict where
  "uplink_profile_payload =
     [(''resource_type'', JStr ''PolicyUplinkHostSwitchProfile''),
      (''description'', JStr ''Uplink host switch profile''),
      (''display_name'', JStr ''Uplink host switch profile''),
      (''transport_vlan'', JInt 20),
      (''overlay_encap'', JStr ''GENEVE''),
      (''teaming'', JObj
         [(''active_list'', JArr
             [JObj [(''uplink_name'', JStr ''uplink1''), (''uplink_type'', JStr ''PNIC'')]]),
          (''standby_list'', JArr
             [JObj [(''uplink_name'', JStr ''uplink2''), (''uplink_type'', JStr ''PNIC'')]]),
          (''policy'', JStr ''FAILOVER_ORDER'')])]"

definition create_uplink_host_switch_profile :: "world \<Rightarrow> (exc + dict) \<times> world" where
  "create_uplink_host_switch_profile w =
     (case fetch_json (http_get (''/policy/api/v1/infra/host-switch-profiles/'' @ ''hsp'')) w of
        (Inl e, w1) \<Rightarrow> (Inl e, w1)
      | (Inr existing_profile, w1) \<Rightarrow>
          if existing_profile \<noteq> [] \<and> has_key ''id'' existing_profile
          then (Inr existing_profile, w1)
          else fetch_json
                 (http_put (''/policy/api/v1/infra/host-switch-profiles/'' @ ''hsp'')
                    (Some uplink_profile_payload)) w1)"

text \<open>The loop of \<open>get_transport_zone\<close> visits every zone and keeps the matching ones.\<close>

fun all_matches :: "(dict \<Rightarrow> bool) \<Rightarrow> jval list \<Rightarrow> exc + dict list" where
  "all_matches P [] = Inr []"
| "all_matches P (JObj d # items) =
     (case all_matches P items of
        Inl e \<Rightarrow> Inl e
      | Inr ms \<Rightarrow> Inr (if P d then d # ms else ms))"
| "all_matches P (v # items) = Inl (attribute_error v ''get'')"

definition transport_zone_prefix :: string where
  "transport_zone_prefix =
     ''/infra/sites/default/enforcement-points/default/transport-zones/''"

definition get_transport_zone :: "string \<Rightarrow> string \<Rightarrow> world \<Rightarrow> (exc + dict) \<times> world" where
  "get_transport_zone display_name transport_type w =
     (case fetch_json
             (http_get
                ''/policy/api/v1/infra/sites/default/enforcement-points/default/transport-zones'')
             w of
        (Inl e, w1) \<Rightarrow> (Inl e, w1)
      | (Inr zones, w1) \<Rightarrow>
          (let expected_tz_type =
                 (case map_of [(''OVERLAY'', ''OVERLAY_STANDARD''), (''VLAN'', ''VLAN_BACKED'')]
                         transport_type of
                    None \<Rightarrow> transport_type
                  | Some t \<Rightarrow> t)
           in case py_iter (dict_get_default zones ''results'' (JArr [])) of
                Inl e \<Rightarrow> (Inl e, w1)
              | Inr items \<Rightarrow>
                  (case all_matches
                          (\<lambda>zone. dict_get zone ''display_name'' = JStr display_name
                                 \<and> dict_get zone ''tz_type'' = JStr expected_tz_type) items of
                     Inl e \<Rightarrow> (Inl e, w1)
                   | Inr [] \<Rightarrow>
                       (Inl (Exc ''ValueError''
                               (''Transport Zone '' @ quoted display_name @ '' of type ''
                                @ quoted transport_type @ '' not found'')), w1)
                   | Inr (zone # others) \<Rightarrow> (Inr (ensure_path w transport_zone_prefix zone), w1))))"

definition get_dvs_from_compute_manager :: "jval \<Rightarrow> world \<Rightarrow> jval \<times> world" where
  "get_dvs_from_compute_manager compute_manager_id w =
     (case fetch_json
             (http_get
                (''/policy/api/v1/search?query=''
                 @ ''(resource_type:DistributedVirtualSwitch AND ''
                 @ ''_meta.productInfo.version:>=7000000000 AND !owner_nsx:OTHER AND origin_id:''
                 @ py_str w compute_manager_id @ '')'')) w of
        (Inl e, w1) \<Rightarrow> (JStr ''DSwitch'', w1)
      | (Inr search_results, w1) \<Rightarrow>
          (case py_iter (dict_get_default search_results ''results'' (JArr [])) of
             Inl e \<Rightarrow> (JStr ''DSwitch'', w1)
           | Inr items \<Rightarrow>
               (case first_match
                       (\<lambda>r. dict_get r ''resource_type'' = JStr ''DistributedVirtualSwitch''
                            \<and> truthy (dict_get r ''uuid'')) items of
                  Inl e \<Rightarrow> (JStr ''DSwitch'', w1)
                | Inr None \<Rightarrow> (JStr ''DSwitch'', w1)
                | Inr (Some r) \<Rightarrow> (dict_get r ''uuid'', w1))))"

text \<open>\<open>v[0]\<close>\<close>

fun py_first :: "jval \<Rightarrow> exc + jval" where
  "py_first (JArr []) = Inl (Exc ''IndexError'' ''list index out of range'')"
| "py_first (JArr (x # xs)) = Inr x"
| "py_first (JStr []) = Inl (Exc ''IndexError'' ''string index out of range'')"
| "py_first (JStr (c # s)) = Inr (JStr [c])"
| "py_first (JObj d) = Inl (Exc ''KeyError'' ''0'')"
| "py_first v = Inl (type_error (quoted (type_name v) @ '' object is not subscriptable''))"

definition get_compute_collection :: "world \<Rightarrow> (exc + jval) \<times> world" where
  "get_compute_collection w =
     (case fetch_json
             (http_get (''/api/v1/fabric/compute-collections?display_name='' @ ''Cluster'')) w of
        (Inl e, w1) \<Rightarrow> (Inl e, w1)
      | (Inr collections, w1) \<Rightarrow>
          if \<not> truthy (dict_get collections ''results'')
          then (Inl (Exc ''ValueError''
                       (''Compute Collection '' @ quoted ''Cluster'' @ '' not found'')), w1)
          else (py_first (dict_get collections ''results''), w1))"

section \<open>The orchestrator\<close>

text \<open>Sequencing of steps: the first exception ends the run.\<close>

definition seq ::
  "(world \<Rightarrow> (exc + 'a) \<times> world) \<Rightarrow> ('a \<Rightarrow> world \<Rightarrow> (exc + 'b) \<times> world)
     \<Rightarrow> world \<Rightarrow> (exc + 'b) \<times> world" where
  "seq m f w = (case m w of (Inl e, w') \<Rightarrow> (Inl e, w') | (Inr a, w') \<Rightarrow> f a w')"

definition pure_step :: "exc + 'a \<Rightarrow> world \<Rightarrow> (exc + 'a) \<times> world" where
  "pure_step r w = (r, w)"

text \<open>Step 1, with the \<open>except\<close> clause of \<open>execute_config_script\<close> around it.\<close>

definition compute_manager_step :: "zpod \<Rightarrow> world \<Rightarrow> (exc + dict) \<times> world" where
  "compute_manager_step z w =
     (case create_compute_manager z w of
        (Inr compute_manager, w1) \<Rightarrow> (Inr compute_manager, w1)
      | (Inl e, w1) \<Rightarrow>
          if sublist ''error_code'' (exc_str e) \<and> sublist ''7050'' (exc_str e) then
            (case get_existing_compute_manager (''vcsa.'' @ domain z) w1 of
               (existing_cm, w2) \<Rightarrow>
                 (case found existing_cm of
                    Some cm \<Rightarrow> (Inr cm, w2)
                  | None \<Rightarrow> (Inl e, w2)))
          else (Inl e, w1))"

text \<open>Step 2: whatever the \<open>try\<close> raises is printed and the run goes on.\<close>

definition status_step :: "dict \<Rightarrow> world \<Rightarrow> (exc + unit) \<times> world" where
  "status_step compute_manager w =
     (case seq (pure_step (py_subscript (JObj compute_manager) ''id''))
               (\<lambda>compute_manager_id. check_compute_manager_status compute_manager_id 120) w of
        (Inl e, w1) \<Rightarrow> (Inr (), w1)
      | (Inr u, w1) \<Rightarrow> (Inr (), w1))"

text \<open>Step 5: the two checks and the creation of the subnet.\<close>

definition subnet_step :: "dict \<Rightarrow> dict \<Rightarrow> world \<Rightarrow> (exc + dict) \<times> world" where
  "subnet_step ip_pool ip_block w =
     (if \<not> has_key ''path'' ip_pool
      then (Inl (Exc ''ValueError'' (''IP Pool object missing '' @ quoted ''path'' @ '' key'')), w)
      else if \<not> has_key ''path'' ip_block
      then (Inl (Exc ''ValueError'' (''IP Block object missing '' @ quoted ''path'' @ '' key'')), w)
      else create_block_subnet (dict_get ip_pool ''path'') (dict_get ip_block ''path'') w)"

text \<open>Steps 12 and 13.\<close>

definition realization_step :: "dict \<Rightarrow> jval \<Rightarrow> world \<Rightarrow> (exc + unit) \<times> world" where
  "realization_step htnc compute_collection w =
     (let htnc_path = dict_get htnc ''path'';
          verify = (\<lambda>u. seq (pure_step (py_subscript compute_collection ''external_id''))
                           verify_nsx_configuration_status)
      in if \<not> truthy htnc_path \<and> has_key ''id'' htnc then
           seq (wait_for_htnc_realization
                  (JStr (''/transport-node-collections/'' @ py_str w (dict_get htnc ''id''))) 300)
               verify w
         else if \<not> truthy htnc_path then (Inr (), w)
         else seq (wait_for_htnc_realization htnc_path 300) verify w)"

section \<open>The database\<close>

text \<open>
  The database session, the models and \<open>DBUtils\<close> are not part of the module either. A
  \<open>database\<close> holds what they answer:
  \<^item> \<open>get_session_ctx db\<close> is the exception that entering \<open>database.get_session_ctx()\<close>
    raises, if any;
  \<^item> \<open>session_get db i\<close> is the outcome of \<open>session.get(M.ZpodComponent, i)\<close>: it raises, or
    it gives \<open>None\<close> or the component with that id;
  \<^item> \<open>get_setting_value db name\<close> is the outcome of \<open>DBUtils.get_setting_value(name)\<close>: it
    raises or gives a value.
  A component refers to its zPod (\<open>zpod_component.zpod\<close>). The module only reads the
  database.
\<close>

record zpod_component =
  zpod :: zpod

record database =
  get_session_ctx :: "exc option"
  session_get :: "int \<Rightarrow> exc + zpod_component option"
  get_setting_value :: "string \<Rightarrow> exc + jval"

text \<open>
  The body of \<open>execute_config_script\<close> from \<open>NsxClient.auth_by_zpod\<close> on: the thirteen
  steps in a row.
\<close>

definition configuration_steps :: "zpod \<Rightarrow> world \<Rightarrow> (exc + unit) \<times> world" where
  "configuration_steps z w =
     (case auth_by_zpod w of
        Some e \<Rightarrow> (Inl e, w)
      | None \<Rightarrow>
     seq (fetch_json (http_post ''/api/v1/eula/accept'' None)) (\<lambda>eula.
     seq (compute_manager_step z) (\<lambda>compute_manager.
     seq (status_step compute_manager) (\<lambda>u.
     seq create_ip_block (\<lambda>ip_block.
     seq create_ip_pool (\<lambda>ip_pool.
     seq (subnet_step ip_pool ip_block) (\<lambda>subnet.
     seq create_uplink_host_switch_profile (\<lambda>uplink_profile.
     seq (get_transport_zone ''nsx-overlay-transportzone'' ''OVERLAY'') (\<lambda>overlay_tz.
     seq (get_transport_zone ''nsx-vlan-transportzone'' ''VLAN'') (\<lambda>vlan_tz.
     seq (pure_step (py_subscript (JObj compute_manager) ''id'')) (\<lambda>compute_manager_id.
     seq (\<lambda>w'. case get_dvs_from_compute_manager compute_manager_id w' of
                  (dvs, w'') \<Rightarrow> (Inr dvs, w'')) (\<lambda>vsphere_dvs_id.
     seq (pure_step (py_subscript (JObj ip_pool) ''path'')) (\<lambda>ip_pool_path.
     seq (pure_step (py_subscript (JObj overlay_tz) ''path'')) (\<lambda>overlay_tz_path.
     seq (pure_step (py_subscript (JObj vlan_tz) ''path'')) (\<lambda>vlan_tz_path.
     seq (pure_step (py_subscript (JObj uplink_profile) ''path'')) (\<lambda>uplink_profile_path.
     seq (create_transport_node_profile ip_pool_path overlay_tz_path vlan_tz_path
            uplink_profile_path vsphere_dvs_id) (\<lambda>tnp.
     seq get_compute_collection (\<lambda>compute_collection.
     seq (pure_step (py_subscript compute_collection ''external_id'')) (\<lambda>external_id.
     seq (create_host_transport_node_collection external_id (dict_get tnp ''unique_id''))
       (\<lambda>htnc.
     realization_step htnc compute_collection))))))))))))))))))) w)"

text \<open>
  \<open>execute_config_script\<close>: the session is opened, the component and its zPod are read
  (\<open>zpod_component.zpod\<close> raises when \<open>session.get\<close> gave \<open>None\<close>), the setting
  \<open>ff_component_wait_for_status\<close> is read and tested, and the steps follow.
\<close>

definition execute_config_script :: "database \<Rightarrow> int \<Rightarrow> world \<Rightarrow> (exc + unit) \<times> world" where
  "execute_config_script db zpod_component_id w =
     (case get_session_ctx db of
        Some e \<Rightarrow> (Inl e, w)
      | None \<Rightarrow>
          (case session_get db zpod_component_id of
             Inl e \<Rightarrow> (Inl e, w)
           | Inr None \<Rightarrow> (Inl (attribute_error JNull ''zpod''), w)
           | Inr (Some zpod_component) \<Rightarrow>
               (case get_setting_value db ''ff_component_wait_for_status'' of
                  Inl e \<Rightarrow> (Inl e, w)
                | Inr setting \<Rightarrow>
                    if setting \<noteq> JStr ''true''
                    then (Inl (Exc ''ValueError'' ''ff_component_wait_for_status is not true''), w)
                    else configuration_steps (zpod zpod_component) w)))"

section \<open>Worlds for the examples\<close>

text \<open>
  \<open>script_world rs\<close> answers the \<open>k\<close>-th request with \<open>rs ! k\<close> and raises a
  connection error once the script is over; requests take no time, the TLS peer hands
  over a three-byte certificate and the digest function is constant.
\<close>

definition script_world :: "(exc + http_response) list \<Rightarrow> world" where
  "script_world rs =
     \<lparr>responses = (\<lambda>k. if k < length rs then rs ! k
                        else Inl (Exc ''ConnectionError'' ''connection refused'')),
      latency = (\<lambda>k. 0),
      auth_by_zpod = None,
      peer_cert = (\<lambda>h. Inr [1, 2, 3]),
      sha256 = (\<lambda>c. 0x7c3a91e504bd62f8d1590ea73386cb4fa92e17d05b68f43ce0772a9d164fc8b3),
      repr_container = (\<lambda>v. ''[...]''),
      calls = [],
      clock = 0\<rparr>"

definition ok :: "dict \<Rightarrow> exc + http_response" where
  "ok body = Inr \<lparr>status_code = 200, safejson = Inr body\<rparr>"

definition listing :: "dict list \<Rightarrow> exc + http_response" where
  "listing items = ok [(''results'', JArr (map JObj items))]"

definition demo_zpod :: zpod where
  "demo_zpod = \<lparr>domain = ''lab.example'', password = ''secret''\<rparr>"

text \<open>
  A database whose session opens, with the component 1 of that zPod and the given value
  of the setting \<open>ff_component_wait_for_status\<close>.
\<close>

definition demo_db :: "jval \<Rightarrow> database" where
  "demo_db setting =
     \<lparr>get_session_ctx = None,
      session_get = (\<lambda>i. if i = 1 then Inr (Some \<lparr>zpod = demo_zpod\<rparr>) else Inr None),
      get_setting_value =
        (\<lambda>name. Inr (if name = ''ff_component_wait_for_status'' then setting else JNull))\<rparr>"

text \<open>A listing with one resource of each kind.\<close>

definition inventory :: "dict list" where
  "inventory =
     [[(''server'', JStr ''vcsa.lab.example''), (''id'', JStr ''cm-1'')],
      [(''display_name'', JStr ''ip-block-vtep''), (''id'', JStr ''blk-1'')],
      [(''display_name'', JStr ''ip-pool-vtep''), (''id'', JStr ''ip-pool-vtep''),
       (''path'', JStr ''/infra/ip-pools/ip-pool-vtep'')],
      [(''display_name'', JStr ''tnp''), (''unique_id'', JStr ''u-7'')],
      [(''display_name'', JStr ''Host transport node collection''), (''id'', JStr ''h-1'')]]"


text \<open>
  A run in which the lookup finds nothing, the create request raises, and a second
  lookup would find the resource.
\<close>

definition conflict_world :: "string \<Rightarrow> world" where
  "conflict_world message =
     script_world [listing [], Inl (Exc ''NsxError'' message), listing inventory]"

text \<open>A run in which the compute manager is only found by the third lookup.\<close>

definition stubborn_world :: world where
  "stubborn_world =
     script_world [listing [], Inl (Exc ''NsxError'' ''error_code 7050: already registered''),
                   listing [], listing inventory]"

text \<open>Resources as the backend lists them without a path.\<close>

definition bare_items :: "dict list" where
  "bare_items =
     [[(''display_name'', JStr ''ip-block-vtep''), (''id'', JStr ''blk-1'')],
      [(''display_name'', JStr ''ip-pool-vtep''), (''id'', JInt 7)]]"

definition bare_created :: dict where
  "bare_created = [(''id'', JStr ''new-1''), (''display_name'', JStr ''tnp'')]"

text \<open>
  A run up to the creation of the subnet: the compute manager, the IP block and the IP
  pool are found; the path of the block is the empty string.
\<close>

definition empty_path_block :: dict where
  "empty_path_block = [(''display_name'', JStr ''ip-block-vtep''), (''path'', JStr '''')]"

definition empty_path_world :: world where
  "empty_path_world =
     script_world
       [ok [], listing inventory, ok [(''connection_status'', JStr ''UP'')],
        listing [empty_path_block], listing inventory, ok [],
        Inl (Exc ''HTTPError'' ''404''), Inl (Exc ''HTTPError'' ''500'')]"

text \<open>A run in which the IP pool found has neither a path nor an id.\<close>

definition pathless_pool :: dict where
  "pathless_pool = [(''display_name'', JStr ''ip-pool-vtep'')]"

definition pathless_world :: world where
  "pathless_world =
     script_world
       [ok [], listing inventory, ok [(''connection_status'', JStr ''UP'')],
        listing inventory, listing [pathless_pool]]"

text \<open>A transport node of the compute collection \<open>cc-1\<close> and some statuses.\<close>

definition node1 :: dict where
  "node1 =
     [(''id'', JStr ''tn-1''), (''display_name'', JStr ''esxi-1''),
      (''compute_collection_id'', JStr ''cc-1'')]"

definition status_of :: "string \<Rightarrow> string \<Rightarrow> dict" where
  "status_of status deployment_status =
     [(''status'', JStr status),
      (''node_status'', JObj [(''host_node_deployment_status'', JStr deployment_status)])]"

definition fresh_tally :: tally where
  "fresh_tally = \<lparr>all_ready = True, failed_nodes = [], preparing_hosts = []\<rparr>"

text \<open>
  A run of the host-preparation poll in which the first status request of the only
  node raises and, on the next attempt, the node is installed and up.
\<close>

definition first_fetch_fails_world :: world where
  "first_fetch_fails_world =
     script_world
       [listing [node1], Inl (Exc ''ReadTimeout'' ''timed out''),
        listing [node1], ok (status_of ''UP'' ''INSTALL_SUCCESSFUL'')]"

section \<open>Properties of the thumbprint\<close>

lemma pairs_hex_bytes: "pairs (concat (map hex_byte bs)) = map hex_byte bs"
  by (induction bs) (simp_all add: hex_byte_def)

lemma upper_hexdigit_all:
  "\<forall>n<16. upper_char (hexdigit n) = ''0123456789ABCDEF'' ! n"
  by (simp add: numeral_eq_Suc All_less_Suc upper_char_def hexdigit_def)

lemma upper_hexdigit:
  "n < 16 \<Longrightarrow> upper_char (hexdigit n) = ''0123456789ABCDEF'' ! n"
  using upper_hexdigit_all by blast

lemma upper_hex_byte: "upper (hex_byte b) = upper_hex_byte b"
proof -
  have "unat b < 256" using unsigned_less [of b, where ?'a = nat] by simp
  then have "unat b div 16 < 16" by simp
  moreover have "unat b mod 16 < 16" by simp
  ultimately show ?thesis
    by (simp add: upper_def hex_byte_def upper_hex_byte_def upper_hexdigit)
qed

lemma upper_hex_digit_in:
  "n < 16 \<Longrightarrow> ''0123456789ABCDEF'' ! n \<in> set ''0123456789ABCDEF''"
  by (rule nth_mem) simp

lemma upper_hex_byte_chars:
  "length (upper_hex_byte b) = 2 \<and> set (upper_hex_byte b) \<subseteq> set ''0123456789ABCDEF''"
proof -
  have "unat b < 256" using unsigned_less [of b, where ?'a = nat] by simp
  then have d: "unat b div 16 < 16" by simp
  have m: "unat b mod 16 < 16" by simp
  have two: "set [x, y] \<subseteq> S" if "x \<in> S" "y \<in> S" for x y :: char and S
    using that by simp
  have "set (upper_hex_byte b) \<subseteq> set ''0123456789ABCDEF''"
    unfolding upper_hex_byte_def
    by (rule two [OF upper_hex_digit_in [OF d] upper_hex_digit_in [OF m]])
  then show ?thesis by (simp add: upper_hex_byte_def)
qed

lemma digest_bytes_example:
  "digest_bytes 0x7c3a91e504bd62f8d1590ea73386cb4fa92e17d05b68f43ce0772a9d164fc8b3 =
     [0x7c, 0x3a, 0x91, 0xe5, 0x04, 0xbd, 0x62, 0xf8, 0xd1, 0x59, 0x0e, 0xa7, 0x33,
      0x86, 0xcb, 0x4f, 0xa9, 0x2e, 0x17, 0xd0, 0x5b, 0x68, 0xf4, 0x3c, 0xe0, 0x77,
      0x2a, 0x9d, 0x16, 0x4f, 0xc8, 0xb3]"
  unfolding digest_bytes_def by code_simp

text \<open>
  C8. For every certificate obtained from the peer, the thumbprint returned is the
  256-bit digest of the certificate bytes, written as 32 groups joined by colons, each
  group the two upper-case hexadecimal digits of one digest byte.
\<close>

theorem thumbprint_format:
  assumes "peer_cert w hostname = Inr cert"
  shows "get_ssl_thumbprint w hostname =
           Inr (join '':'' (map upper_hex_byte (digest_bytes (sha256 w cert))))
         \<and> length (map upper_hex_byte (digest_bytes (sha256 w cert))) = 32
         \<and> (\<forall>g \<in> set (map upper_hex_byte (digest_bytes (sha256 w cert))).
              length g = 2 \<and> set g \<subseteq> set ''0123456789ABCDEF'')"
proof -
  have "map upper (pairs (hexdigest (sha256 w cert)))
          = map upper_hex_byte (digest_bytes (sha256 w cert))"
    by (simp add: hexdigest_def pairs_hex_bytes upper_hex_byte)
  then have "get_ssl_thumbprint w hostname =
     Inr (join '':'' (map upper_hex_byte (digest_bytes (sha256 w cert))))"
    using assms by (simp add: get_ssl_thumbprint_def format_thumbprint_def)
  moreover have "length (map upper_hex_byte (digest_bytes (sha256 w cert))) = 32"
    by (simp add: digest_bytes_def)
  moreover have "\<forall>g \<in> set (map upper_hex_byte (digest_bytes (sha256 w cert))).
        length g = 2 \<and> set g \<subseteq> set ''0123456789ABCDEF''"
    using upper_hex_byte_chars by auto
  ultimately show ?thesis by blast
qed

theorem thumbprint_format_witness:
  "peer_cert (script_world []) ''vcsa.lab.example'' = Inr [1, 2, 3]
   \<and> get_ssl_thumbprint (script_world []) ''vcsa.lab.example''
       = Inr (''7C:3A:91:E5:04:BD:62:F8:D1:59:0E:A7:33:86:CB:4F:''
              @ ''A9:2E:17:D0:5B:68:F4:3C:E0:77:2A:9D:16:4F:C8:B3'')"
proof -
  have h: "peer_cert (script_world []) ''vcsa.lab.example'' = Inr [1, 2, 3]"
    by (simp add: script_world_def)
  show ?thesis
    using h thumbprint_format [OF h]
    by (simp add: script_world_def digest_bytes_example upper_hex_byte_def)
qed

section \<open>Requests and lookups\<close>

lemma send_calls: "send rq w = (r, w') \<Longrightarrow> calls w' = calls w @ [rq]"
  by (auto simp: send_def)

lemma fetch_json_calls: "fetch_json rq w = (r, w') \<Longrightarrow> calls w' = calls w @ [rq]"
  by (auto simp: fetch_json_def send_def split: sum.splits)

lemma fetch_json_static:
  "fetch_json rq w = (r, w') \<Longrightarrow>
     responses w' = responses w \<and> latency w' = latency w \<and> repr_container w' = repr_container w
     \<and> peer_cert w' = peer_cert w \<and> sha256 w' = sha256 w \<and> auth_by_zpod w' = auth_by_zpod w"
  by (auto simp: fetch_json_def send_def split: sum.splits)

lemma fetch_json_clock: "fetch_json rq w = (r, w') \<Longrightarrow> clock w \<le> clock w'"
  by (auto simp: fetch_json_def send_def split: sum.splits)




lemma map_of_dict_set:
  "map_of (dict_set d k v) k' = (if k' = k then Some v else map_of d k')"
  by (induction d) auto

lemma dict_set_not_Nil: "dict_set d k v \<noteq> []"
  by (cases d) (auto split: if_splits)

lemma has_key_dict_set: "has_key k' (dict_set d k v) = (k' = k \<or> has_key k' d)"
  by (simp add: has_key_def map_of_dict_set)


lemma ensure_path_idem: "ensure_path w' p (ensure_path w p d) = ensure_path w p d"
  by (simp add: ensure_path_def has_key_dict_set)







lemma found_Some: "found r = Some b \<Longrightarrow> r = Some b"
  by (cases r) (auto split: if_splits)


lemma ensure_path_static:
  "repr_container w' = repr_container w \<Longrightarrow> ensure_path w' p d = ensure_path w p d"
  by (simp add: ensure_path_def py_str_def split: jval.splits)

text \<open>With the component in the database and the setting "true", the steps run.\<close>

lemma execute_config_script_steps:
  "get_session_ctx db = None \<Longrightarrow> session_get db i = Inr (Some c) \<Longrightarrow>
   get_setting_value db ''ff_component_wait_for_status'' = Inr (JStr ''true'') \<Longrightarrow>
     execute_config_script db i w = configuration_steps (zpod c) w"
  by (simp add: execute_config_script_def)

text \<open>The definitions a concrete run unfolds.\<close>

lemmas eval_defs = script_world_def listing_def ok_def
  list_lookup_def fetch_json_def send_def http_get_def http_post_def http_put_def
  dict_get_def dict_get_default_def has_key_def ensure_path_def py_str_def
  get_existing_ip_block_def get_existing_ip_pool_def get_existing_compute_manager_def
  get_existing_transport_node_profile_def get_existing_host_transport_node_collection_def
  ip_block_prefix_def ip_pool_prefix_def

lemmas create_defs = create_ip_block_def create_ip_pool_def create_transport_node_profile_def
  create_host_transport_node_collection_def create_compute_manager_def
  compute_manager_step_def get_ssl_thumbprint_def duplicate_conflict_def
  already_registered_def lower_def lower_char_def replace_char_def sublist_code
  Let_def

lemmas str_defs = show_int_def show_nat.simps

lemmas orch_defs = configuration_steps_def seq_def pure_step_def status_step_def
  subnet_step_def check_compute_manager_status_def cm_status_loop.simps
  create_block_subnet_def split_last_def quoted_def

lemmas verify_defs = classify_status_def has_deployment_status_def deployment_marker_def
  status_prints_def node_step_def record_outcome_def record_fetch_error_def
  attempt_body_def node_cc_id_def
  mentions_failure_def max_attempts_def py_join_def unbound_status_data_def
  verify_nsx_configuration_status_def

section \<open>Create-or-get: two calls, one resource\<close>















section \<open>Errors of the create request\<close>

text \<open>
  C2 as stated does not hold for the compute manager: a create error
  whose text contains "duplicate" is raised again at once, by \<open>create_compute_manager\<close>
  and by the orchestrator around it, although a second lookup would find the compute
  manager. Two requests are issued, the lookup and the create request.
\<close>

theorem duplicate_not_recovered_for_compute_manager:
  "sublist ''duplicate'' (lower (exc_str (Exc ''NsxError'' ''Duplicate compute manager'')))
   \<and> fst (compute_manager_step demo_zpod (conflict_world ''Duplicate compute manager''))
       = Inl (Exc ''NsxError'' ''Duplicate compute manager'')
   \<and> map rq_method
        (calls (snd (compute_manager_step demo_zpod
                       (conflict_world ''Duplicate compute manager'')))) = [GET, POST]
   \<and> fst (get_existing_compute_manager ''vcsa.lab.example''
             (snd (compute_manager_step demo_zpod
                     (conflict_world ''Duplicate compute manager''))))
       = Some [(''server'', JStr ''vcsa.lab.example''), (''id'', JStr ''cm-1'')]"
  by (simp add: eval_defs inventory_def demo_zpod_def conflict_world_def conflict_world_def
        compute_manager_step_def
        create_compute_manager_def get_ssl_thumbprint_def already_registered_def
        lower_def lower_char_def sublist_code)

text \<open>
  C2, amended. When the opening lookup finds nothing and the create request raises
  \<open>e\<close>: for the IP block, the IP pool, the transport node profile and the host
  transport-node collection the error is a recoverable conflict exactly when the text
  of \<open>e\<close>, in lower case, contains "already exists" or "duplicate"; for the compute
  manager, exactly when the text contains "already registered with NSX" or
  "error_code" as written. On a recoverable conflict the lookup runs again and its
  result is returned if it finds the resource; otherwise \<open>e\<close> is raised, and after an
  error that is no conflict no further request is issued. Around the creation of the
  compute manager the orchestrator runs the lookup once more when the text of the
  error contains both "error_code" and "7050".
\<close>

theorem create_conflict_recovery:
  "(get_existing_ip_block ''ip-block-vtep'' w = (r, w1) \<and> found r = None
      \<and> fetch_json (http_post ''/api/v1/pools/ip-blocks'' (Some ip_block_payload)) w1
          = (Inl e, w2)
      \<and> get_existing_ip_block ''ip-block-vtep'' w2 = (r2, w3) \<longrightarrow>
      create_ip_block w =
        (if sublist ''already exists'' (lower (exc_str e))
            \<or> sublist ''duplicate'' (lower (exc_str e))
         then (case found r2 of Some b \<Rightarrow> (Inr b, w3) | None \<Rightarrow> (Inl e, w3))
         else (Inl e, w2)))
   \<and> (get_existing_ip_pool ''ip-pool-vtep'' w = (r, w1) \<and> found r = None
      \<and> fetch_json (http_put ''/policy/api/v1/infra/ip-pools/ip-pool-vtep''
                      (Some ip_pool_payload)) w1 = (Inl e, w2)
      \<and> get_existing_ip_pool ''ip-pool-vtep'' w2 = (r2, w3) \<longrightarrow>
      create_ip_pool w =
        (if sublist ''already exists'' (lower (exc_str e))
            \<or> sublist ''duplicate'' (lower (exc_str e))
         then (case found r2 of Some b \<Rightarrow> (Inr b, w3) | None \<Rightarrow> (Inl e, w3))
         else (Inl e, w2)))
   \<and> (get_existing_transport_node_profile ''tnp'' w = (r, w1) \<and> found r = None
      \<and> fetch_json (http_put ''/policy/api/v1/infra/host-transport-node-profiles/tnp''
                      (Some (transport_node_profile_payload ip_pool_path overlay_tz_path
                               vlan_tz_path uplink_profile_path vsphere_dvs_id))) w1
          = (Inl e, w2)
      \<and> get_existing_transport_node_profile ''tnp'' w2 = (r2, w3) \<longrightarrow>
      create_transport_node_profile ip_pool_path overlay_tz_path vlan_tz_path
          uplink_profile_path vsphere_dvs_id w =
        (if sublist ''already exists'' (lower (exc_str e))
            \<or> sublist ''duplicate'' (lower (exc_str e))
         then (case found r2 of Some b \<Rightarrow> (Inr b, w3) | None \<Rightarrow> (Inl e, w3))
         else (Inl e, w2)))
   \<and> (get_existing_host_transport_node_collection ''Host transport node collection'' w
        = (r, w1) \<and> found r = None
      \<and> fetch_json (http_post ''/api/v1/transport-node-collections''
                      (Some (host_transport_node_collection_payload
                               compute_collection_id tnp_id))) w1 = (Inl e, w2)
      \<and> get_existing_host_transport_node_collection ''Host transport node collection'' w2
          = (r2, w3) \<longrightarrow>
      create_host_transport_node_collection compute_collection_id tnp_id w =
        (if sublist ''already exists'' (lower (exc_str e))
            \<or> sublist ''duplicate'' (lower (exc_str e))
         then (case found r2 of Some b \<Rightarrow> (Inr b, w3) | None \<Rightarrow> (Inl e, w3))
         else (Inl e, w2)))
   \<and> (get_ssl_thumbprint w (''vcsa.'' @ domain z) = Inr thumbprint
      \<and> get_existing_compute_manager (''vcsa.'' @ domain z) w = (r, w1) \<and> found r = None
      \<and> fetch_json (http_post ''/api/v1/fabric/compute-managers''
                      (Some (compute_manager_payload (''vcsa.'' @ domain z)
                               (''administrator@'' @ domain z) (password z) thumbprint))) w1
          = (Inl e, w2)
      \<and> get_existing_compute_manager (''vcsa.'' @ domain z) w2 = (r2, w3) \<longrightarrow>
      create_compute_manager z w =
        (if sublist ''already registered with NSX'' (exc_str e)
            \<or> sublist ''error_code'' (exc_str e)
         then (case found r2 of Some cm \<Rightarrow> (Inr cm, w3) | None \<Rightarrow> (Inl e, w3))
         else (Inl e, w2)))
   \<and> (create_compute_manager z w = (Inl e, w1)
      \<and> get_existing_compute_manager (''vcsa.'' @ domain z) w1 = (r, w2) \<longrightarrow>
      compute_manager_step z w =
        (if sublist ''error_code'' (exc_str e) \<and> sublist ''7050'' (exc_str e)
         then (case found r of Some cm \<Rightarrow> (Inr cm, w2) | None \<Rightarrow> (Inl e, w2))
         else (Inl e, w1)))"
proof -
  have norm: "ensure_path w ip_block_prefix b = b"
    if "get_existing_ip_block ''ip-block-vtep'' w2 = (r2, w3)" "found r2 = Some b" for b
    using that
    by (auto simp: get_existing_ip_block_def ensure_path_idem dest!: found_Some
             split: prod.splits)
  have block: "create_ip_block w =
        (if sublist ''already exists'' (lower (exc_str e))
            \<or> sublist ''duplicate'' (lower (exc_str e))
         then (case found r2 of Some b \<Rightarrow> (Inr b, w3) | None \<Rightarrow> (Inl e, w3))
         else (Inl e, w2))"
    if "get_existing_ip_block ''ip-block-vtep'' w = (r, w1)" "found r = None"
      "fetch_json (http_post ''/api/v1/pools/ip-blocks'' (Some ip_block_payload)) w1
          = (Inl e, w2)"
      "get_existing_ip_block ''ip-block-vtep'' w2 = (r2, w3)"
    using that norm [OF that(4)]
    by (simp add: create_ip_block_def duplicate_conflict_def split: option.splits)
  have pool: "create_ip_pool w =
        (if sublist ''already exists'' (lower (exc_str e))
            \<or> sublist ''duplicate'' (lower (exc_str e))
         then (case found r2 of Some b \<Rightarrow> (Inr b, w3) | None \<Rightarrow> (Inl e, w3))
         else (Inl e, w2))"
    if "get_existing_ip_pool ''ip-pool-vtep'' w = (r, w1)" "found r = None"
      "fetch_json (http_put ''/policy/api/v1/infra/ip-pools/ip-pool-vtep''
                      (Some ip_pool_payload)) w1 = (Inl e, w2)"
      "get_existing_ip_pool ''ip-pool-vtep'' w2 = (r2, w3)"
    using that
    by (simp add: create_ip_pool_def duplicate_conflict_def replace_char_def lower_def
                  lower_char_def split: option.splits)
  have tnp: "create_transport_node_profile ip_pool_path overlay_tz_path vlan_tz_path
          uplink_profile_path vsphere_dvs_id w =
        (if sublist ''already exists'' (lower (exc_str e))
            \<or> sublist ''duplicate'' (lower (exc_str e))
         then (case found r2 of Some b \<Rightarrow> (Inr b, w3) | None \<Rightarrow> (Inl e, w3))
         else (Inl e, w2))"
    if "get_existing_transport_node_profile ''tnp'' w = (r, w1)" "found r = None"
      "fetch_json (http_put ''/policy/api/v1/infra/host-transport-node-profiles/tnp''
                      (Some (transport_node_profile_payload ip_pool_path overlay_tz_path
                               vlan_tz_path uplink_profile_path vsphere_dvs_id))) w1
          = (Inl e, w2)"
      "get_existing_transport_node_profile ''tnp'' w2 = (r2, w3)"
    using that
    by (simp add: create_transport_node_profile_def duplicate_conflict_def
             split: option.splits)
  have htnc: "create_host_transport_node_collection compute_collection_id tnp_id w =
        (if sublist ''already exists'' (lower (exc_str e))
            \<or> sublist ''duplicate'' (lower (exc_str e))
         then (case found r2 of Some b \<Rightarrow> (Inr b, w3) | None \<Rightarrow> (Inl e, w3))
         else (Inl e, w2))"
    if "get_existing_host_transport_node_collection ''Host transport node collection'' w
        = (r, w1)" "found r = None"
      "fetch_json (http_post ''/api/v1/transport-node-collections''
                      (Some (host_transport_node_collection_payload
                               compute_collection_id tnp_id))) w1 = (Inl e, w2)"
      "get_existing_host_transport_node_collection ''Host transport node collection'' w2
          = (r2, w3)"
    using that
    by (simp add: create_host_transport_node_collection_def duplicate_conflict_def
             split: option.splits)
  have cm: "create_compute_manager z w =
        (if sublist ''already registered with NSX'' (exc_str e)
            \<or> sublist ''error_code'' (exc_str e)
         then (case found r2 of Some cm \<Rightarrow> (Inr cm, w3) | None \<Rightarrow> (Inl e, w3))
         else (Inl e, w2))"
    if "get_ssl_thumbprint w (''vcsa.'' @ domain z) = Inr thumbprint"
      "get_existing_compute_manager (''vcsa.'' @ domain z) w = (r, w1)" "found r = None"
      "fetch_json (http_post ''/api/v1/fabric/compute-managers''
                      (Some (compute_manager_payload (''vcsa.'' @ domain z)
                               (''administrator@'' @ domain z) (password z) thumbprint))) w1
          = (Inl e, w2)"
      "get_existing_compute_manager (''vcsa.'' @ domain z) w2 = (r2, w3)"
    using that
    by (simp add: create_compute_manager_def already_registered_def split: option.splits)
  have step: "compute_manager_step z w =
        (if sublist ''error_code'' (exc_str e) \<and> sublist ''7050'' (exc_str e)
         then (case found r of Some cm \<Rightarrow> (Inr cm, w2) | None \<Rightarrow> (Inl e, w2))
         else (Inl e, w1))"
    if "create_compute_manager z w = (Inl e, w1)"
      "get_existing_compute_manager (''vcsa.'' @ domain z) w1 = (r, w2)"
    using that by (simp add: compute_manager_step_def split: option.splits)
  from block pool tnp htnc cm step show ?thesis by blast
qed

theorem create_conflict_recovery_witness:
  "fst (create_ip_block (conflict_world ''Object already exists''))
     = Inr [(''display_name'', JStr ''ip-block-vtep''), (''id'', JStr ''blk-1''),
            (''path'', JStr ''/api/v1/pools/ip-blocks/blk-1'')]
   \<and> fst (create_ip_pool (conflict_world ''Object already exists'')) = Inr (inventory ! 2)
   \<and> fst (create_transport_node_profile JNull JNull JNull JNull JNull
             (conflict_world ''Object already exists'')) = Inr (inventory ! 3)
   \<and> fst (create_host_transport_node_collection JNull JNull
             (conflict_world ''Object already exists'')) = Inr (inventory ! 4)
   \<and> fst (create_compute_manager demo_zpod (conflict_world ''error_code 7050''))
       = Inr (inventory ! 0)
   \<and> fst (create_compute_manager demo_zpod stubborn_world)
       = Inl (Exc ''NsxError'' ''error_code 7050: already registered'')
   \<and> fst (compute_manager_step demo_zpod stubborn_world) = Inr (inventory ! 0)"
proof -
  let ?W = "conflict_world ''Object already exists''"
  let ?n = "''ip-block-vtep''"
  let ?w1 = "snd (get_existing_ip_block ?n ?W)"
  let ?rq = "http_post ''/api/v1/pools/ip-blocks'' (Some ip_block_payload)"
  let ?w2 = "snd (fetch_json ?rq ?w1)"
  have block: "fst (create_ip_block ?W)
     = Inr [(''display_name'', JStr ''ip-block-vtep''), (''id'', JStr ''blk-1''),
            (''path'', JStr ''/api/v1/pools/ip-blocks/blk-1'')]"
    using create_conflict_recovery
      [where w = ?W and r = "fst (get_existing_ip_block ?n ?W)" and ?w1.0 = ?w1
         and e = "Exc ''NsxError'' ''Object already exists''" and ?w2.0 = ?w2
         and ?r2.0 = "fst (get_existing_ip_block ?n ?w2)"
         and ?w3.0 = "snd (get_existing_ip_block ?n ?w2)",
       THEN conjunct1]
    by (simp add: eval_defs inventory_def demo_zpod_def conflict_world_def create_defs)
  let ?np = "''ip-pool-vtep''"
  let ?p1 = "snd (get_existing_ip_pool ?np ?W)"
  let ?rqp = "http_put ''/policy/api/v1/infra/ip-pools/ip-pool-vtep'' (Some ip_pool_payload)"
  let ?p2 = "snd (fetch_json ?rqp ?p1)"
  have pool: "fst (create_ip_pool ?W) = Inr (inventory ! 2)"
    using create_conflict_recovery
      [where w = ?W and r = "fst (get_existing_ip_pool ?np ?W)" and ?w1.0 = ?p1
         and e = "Exc ''NsxError'' ''Object already exists''" and ?w2.0 = ?p2
         and ?r2.0 = "fst (get_existing_ip_pool ?np ?p2)"
         and ?w3.0 = "snd (get_existing_ip_pool ?np ?p2)",
       THEN conjunct2, THEN conjunct1]
    by (simp add: eval_defs inventory_def demo_zpod_def conflict_world_def create_defs)
  let ?t1 = "snd (get_existing_transport_node_profile ''tnp'' ?W)"
  let ?rqt = "http_put ''/policy/api/v1/infra/host-transport-node-profiles/tnp''
                (Some (transport_node_profile_payload JNull JNull JNull JNull JNull))"
  let ?t2 = "snd (fetch_json ?rqt ?t1)"
  have tnp: "fst (create_transport_node_profile JNull JNull JNull JNull JNull ?W)
               = Inr (inventory ! 3)"
    using create_conflict_recovery
      [where w = ?W and r = "fst (get_existing_transport_node_profile ''tnp'' ?W)"
         and ?w1.0 = ?t1
         and e = "Exc ''NsxError'' ''Object already exists''" and ?w2.0 = ?t2
         and ?r2.0 = "fst (get_existing_transport_node_profile ''tnp'' ?t2)"
         and ?w3.0 = "snd (get_existing_transport_node_profile ''tnp'' ?t2)"
         and ip_pool_path = JNull and overlay_tz_path = JNull and vlan_tz_path = JNull
         and uplink_profile_path = JNull and vsphere_dvs_id = JNull,
       THEN conjunct2, THEN conjunct2, THEN conjunct1]
    by (simp add: eval_defs inventory_def demo_zpod_def conflict_world_def create_defs)
  let ?nh = "''Host transport node collection''"
  let ?h1 = "snd (get_existing_host_transport_node_collection ?nh ?W)"
  let ?rqh = "http_post ''/api/v1/transport-node-collections''
                (Some (host_transport_node_collection_payload JNull JNull))"
  let ?h2 = "snd (fetch_json ?rqh ?h1)"
  have htnc: "fst (create_host_transport_node_collection JNull JNull ?W)
                = Inr (inventory ! 4)"
    using create_conflict_recovery
      [where w = ?W and r = "fst (get_existing_host_transport_node_collection ?nh ?W)"
         and ?w1.0 = ?h1
         and e = "Exc ''NsxError'' ''Object already exists''" and ?w2.0 = ?h2
         and ?r2.0 = "fst (get_existing_host_transport_node_collection ?nh ?h2)"
         and ?w3.0 = "snd (get_existing_host_transport_node_collection ?nh ?h2)"
         and compute_collection_id = JNull and tnp_id = JNull,
       THEN conjunct2, THEN conjunct2, THEN conjunct2, THEN conjunct1]
    by (simp add: eval_defs inventory_def demo_zpod_def conflict_world_def create_defs)
  let ?V = "conflict_world ''error_code 7050''"
  let ?host = "''vcsa.'' @ domain demo_zpod"
  let ?thumb = "format_thumbprint (hexdigest (sha256 ?V [1, 2, 3]))"
  let ?c1 = "snd (get_existing_compute_manager ?host ?V)"
  let ?rqc = "http_post ''/api/v1/fabric/compute-managers''
                (Some (compute_manager_payload ?host (''administrator@'' @ domain demo_zpod)
                         (password demo_zpod) ?thumb))"
  let ?c2 = "snd (fetch_json ?rqc ?c1)"
  have cm: "fst (create_compute_manager demo_zpod ?V) = Inr (inventory ! 0)"
    using create_conflict_recovery
      [where w = ?V and z = demo_zpod and thumbprint = ?thumb
         and r = "fst (get_existing_compute_manager ?host ?V)" and ?w1.0 = ?c1
         and e = "Exc ''NsxError'' ''error_code 7050''" and ?w2.0 = ?c2
         and ?r2.0 = "fst (get_existing_compute_manager ?host ?c2)"
         and ?w3.0 = "snd (get_existing_compute_manager ?host ?c2)",
       THEN conjunct2, THEN conjunct2, THEN conjunct2, THEN conjunct2, THEN conjunct1]
    by (simp add: eval_defs inventory_def demo_zpod_def conflict_world_def create_defs)
  have raised: "fst (create_compute_manager demo_zpod stubborn_world)
                  = Inl (Exc ''NsxError'' ''error_code 7050: already registered'')"
    by (simp add: eval_defs inventory_def demo_zpod_def conflict_world_def create_defs
          stubborn_world_def)
  let ?s1 = "snd (create_compute_manager demo_zpod stubborn_world)"
  have step: "fst (compute_manager_step demo_zpod stubborn_world) = Inr (inventory ! 0)"
    using create_conflict_recovery
      [where w = stubborn_world and z = demo_zpod
         and e = "Exc ''NsxError'' ''error_code 7050: already registered''"
         and ?w1.0 = ?s1
         and r = "fst (get_existing_compute_manager ?host ?s1)"
         and ?w2.0 = "snd (get_existing_compute_manager ?host ?s1)",
       THEN conjunct2, THEN conjunct2, THEN conjunct2, THEN conjunct2, THEN conjunct2]
      raised
    by (simp add: eval_defs inventory_def demo_zpod_def conflict_world_def create_defs
          stubborn_world_def)
  from block pool tnp htnc cm raised step show ?thesis by blast
qed

section \<open>The path of a returned descriptor\<close>

text \<open>
  C4 as stated does not hold for every kind: the transport node
  profile that the create request returns with an id and without a path is handed on
  as it is.
\<close>

theorem transport_node_profile_path_not_synthesised:
  "fst (create_transport_node_profile JNull JNull JNull JNull JNull
          (script_world [listing [], ok bare_created])) = Inr bare_created
   \<and> has_key ''id'' bare_created \<and> \<not> has_key ''path'' bare_created"
  by (simp add: eval_defs bare_items_def bare_created_def create_defs bare_created_def)

lemma ensure_path_adds:
  "\<not> has_key ''path'' raw \<Longrightarrow> has_key ''id'' raw \<Longrightarrow>
     ensure_path w p raw = dict_set raw ''path'' (JStr (p @ py_str w (dict_get raw ''id'')))"
  by (simp add: ensure_path_def)

lemma ensure_path_has_path: "has_key ''id'' (ensure_path w p d) \<Longrightarrow> has_key ''path'' (ensure_path w p d)"
  by (auto simp: ensure_path_def has_key_dict_set split: if_splits)

lemma found_dict_set: "found (Some (dict_set d k v)) = Some (dict_set d k v)"
  by (simp add: dict_set_not_Nil)

lemma ensure_path_dict_set_path:
  "ensure_path w p (dict_set d ''path'' v) = dict_set d ''path'' v"
  by (simp add: ensure_path_def has_key_dict_set)

lemma create_ip_block_has_path:
  "create_ip_block w = (Inr d, w') \<Longrightarrow> has_key ''id'' d \<Longrightarrow> has_key ''path'' d"
  by (auto simp: create_ip_block_def ensure_path_has_path
           split: prod.splits option.splits sum.splits if_splits)

lemma get_existing_ip_pool_has_path:
  "get_existing_ip_pool n v = (r, v') \<Longrightarrow> found r = Some d \<Longrightarrow> has_key ''id'' d
     \<Longrightarrow> has_key ''path'' d"
  by (auto simp: get_existing_ip_pool_def ensure_path_has_path dest!: found_Some
           split: prod.splits)

lemma create_ip_pool_has_path:
  "create_ip_pool w = (Inr d, w') \<Longrightarrow> has_key ''id'' d \<Longrightarrow> has_key ''path'' d"
  by (auto simp: create_ip_pool_def Let_def ensure_path_has_path
           dest: get_existing_ip_pool_has_path
           split: prod.splits option.splits sum.splits if_splits)

lemma block_lookup_adds:
  assumes "list_lookup ''/api/v1/pools/ip-blocks''
             (\<lambda>b. dict_get b ''display_name'' = JStr n) w = (Some raw, w1)"
    and "\<not> has_key ''path'' raw" and "has_key ''id'' raw"
  shows "get_existing_ip_block n w =
           (Some (dict_set raw ''path''
                    (JStr (''/api/v1/pools/ip-blocks/'' @ py_str w (dict_get raw ''id'')))), w1)"
  using assms by (simp add: get_existing_ip_block_def ensure_path_adds ip_block_prefix_def)

lemma pool_lookup_adds:
  assumes "list_lookup ''/policy/api/v1/infra/ip-pools''
             (\<lambda>b. dict_get b ''display_name'' = JStr n) w = (Some raw, w1)"
    and "\<not> has_key ''path'' raw" and "has_key ''id'' raw"
  shows "get_existing_ip_pool n w =
           (Some (dict_set raw ''path''
                    (JStr (''/policy/api/v1/infra/ip-pools/''
                           @ py_str w (dict_get raw ''id'')))), w1)"
  using assms by (simp add: get_existing_ip_pool_def ensure_path_adds ip_pool_prefix_def)

lemma py_str_static: "repr_container v = repr_container w \<Longrightarrow> py_str v = py_str w"
  by (auto simp: py_str_def fun_eq_iff split: jval.splits)

lemma get_existing_static:
  "get_existing_ip_block n w = (r, w') \<Longrightarrow> repr_container w' = repr_container w"
  "get_existing_ip_pool n w = (r, w') \<Longrightarrow> repr_container w' = repr_container w"
  by (auto simp: get_existing_ip_block_def get_existing_ip_pool_def list_lookup_def
           dest: fetch_json_static split: prod.splits sum.splits)

text \<open>
  C4, amended. For the IP block and the IP pool, on each of the three ways a
  descriptor is returned (found by the opening lookup, created, found by the lookup
  after a conflict): when the item of the listing or the body of the create response
  has an id and no path, the descriptor returned is that item or body with the path
  set to the prefix of the kind followed by \<open>str(id)\<close>; and every block or pool
  descriptor returned that has an id has a path. The compute manager, the transport
  node profile and the host transport-node collection are returned as received.
\<close>

theorem path_synthesised_for_block_and_pool:
  "(create_ip_block w = (Inr d, w') \<and> has_key ''id'' d \<longrightarrow> has_key ''path'' d)
   \<and> (create_ip_pool w = (Inr d, w') \<and> has_key ''id'' d \<longrightarrow> has_key ''path'' d)
   \<and> (\<not> has_key ''path'' raw \<and> has_key ''id'' raw \<longrightarrow>
       (list_lookup ''/api/v1/pools/ip-blocks''
          (\<lambda>b. dict_get b ''display_name'' = JStr ''ip-block-vtep'') w = (Some raw, w1)
        \<longrightarrow> create_ip_block w =
              (Inr (dict_set raw ''path''
                      (JStr (''/api/v1/pools/ip-blocks/'' @ py_str w (dict_get raw ''id'')))), w1))
     \<and> (get_existing_ip_block ''ip-block-vtep'' w = (r, w1) \<and> found r = None
        \<and> fetch_json (http_post ''/api/v1/pools/ip-blocks'' (Some ip_block_payload)) w1
            = (Inr raw, w2)
        \<longrightarrow> create_ip_block w =
              (Inr (dict_set raw ''path''
                      (JStr (''/api/v1/pools/ip-blocks/'' @ py_str w (dict_get raw ''id'')))), w2))
     \<and> (get_existing_ip_block ''ip-block-vtep'' w = (r, w1) \<and> found r = None
        \<and> fetch_json (http_post ''/api/v1/pools/ip-blocks'' (Some ip_block_payload)) w1
            = (Inl e, w2)
        \<and> duplicate_conflict e
        \<and> list_lookup ''/api/v1/pools/ip-blocks''
            (\<lambda>b. dict_get b ''display_name'' = JStr ''ip-block-vtep'') w2 = (Some raw, w3)
        \<longrightarrow> create_ip_block w =
              (Inr (dict_set raw ''path''
                      (JStr (''/api/v1/pools/ip-blocks/'' @ py_str w (dict_get raw ''id'')))), w3))
     \<and> (list_lookup ''/policy/api/v1/infra/ip-pools''
          (\<lambda>b. dict_get b ''display_name'' = JStr ''ip-pool-vtep'') w = (Some raw, w1)
        \<longrightarrow> create_ip_pool w =
              (Inr (dict_set raw ''path''
                      (JStr (''/policy/api/v1/infra/ip-pools/''
                             @ py_str w (dict_get raw ''id'')))), w1))
     \<and> (get_existing_ip_pool ''ip-pool-vtep'' w = (r, w1) \<and> found r = None
        \<and> fetch_json (http_put ''/policy/api/v1/infra/ip-pools/ip-pool-vtep''
                        (Some ip_pool_payload)) w1 = (Inr raw, w2)
        \<longrightarrow> create_ip_pool w =
              (Inr (dict_set raw ''path''
                      (JStr (''/policy/api/v1/infra/ip-pools/''
                             @ py_str w (dict_get raw ''id'')))), w2))
     \<and> (get_existing_ip_pool ''ip-pool-vtep'' w = (r, w1) \<and> found r = None
        \<and> fetch_json (http_put ''/policy/api/v1/infra/ip-pools/ip-pool-vtep''
                        (Some ip_pool_payload)) w1 = (Inl e, w2)
        \<and> duplicate_conflict e
        \<and> list_lookup ''/policy/api/v1/infra/ip-pools''
            (\<lambda>b. dict_get b ''display_name'' = JStr ''ip-pool-vtep'') w2 = (Some raw, w3)
        \<longrightarrow> create_ip_pool w =
              (Inr (dict_set raw ''path''
                      (JStr (''/policy/api/v1/infra/ip-pools/''
                             @ py_str w (dict_get raw ''id'')))), w3)))"
proof -
  let ?bp = "\<lambda>x. dict_set x ''path''
                (JStr (''/api/v1/pools/ip-blocks/'' @ py_str w (dict_get x ''id'')))"
  let ?pp = "\<lambda>x. dict_set x ''path''
                (JStr (''/policy/api/v1/infra/ip-pools/'' @ py_str w (dict_get x ''id'')))"
  have b1: "create_ip_block w = (Inr (?bp raw), w1)"
    if "\<not> has_key ''path'' raw" "has_key ''id'' raw"
      "list_lookup ''/api/v1/pools/ip-blocks''
          (\<lambda>b. dict_get b ''display_name'' = JStr ''ip-block-vtep'') w = (Some raw, w1)"
    using block_lookup_adds [OF that(3) that(1) that(2)]
    by (simp add: create_ip_block_def found_dict_set dict_set_not_Nil ensure_path_dict_set_path)
  have b2: "create_ip_block w = (Inr (?bp raw), w2)"
    if "\<not> has_key ''path'' raw" "has_key ''id'' raw"
      "get_existing_ip_block ''ip-block-vtep'' w = (r, w1)" "found r = None"
      "fetch_json (http_post ''/api/v1/pools/ip-blocks'' (Some ip_block_payload)) w1
            = (Inr raw, w2)"
    using that by (simp add: create_ip_block_def ensure_path_adds ip_block_prefix_def)
  have b3: "create_ip_block w = (Inr (?bp raw), w3)"
    if "\<not> has_key ''path'' raw" "has_key ''id'' raw"
      "get_existing_ip_block ''ip-block-vtep'' w = (r, w1)" "found r = None"
      "fetch_json (http_post ''/api/v1/pools/ip-blocks'' (Some ip_block_payload)) w1
            = (Inl e, w2)"
      "duplicate_conflict e"
      "list_lookup ''/api/v1/pools/ip-blocks''
            (\<lambda>b. dict_get b ''display_name'' = JStr ''ip-block-vtep'') w2 = (Some raw, w3)"
  proof -
    have "repr_container w2 = repr_container w"
      using get_existing_static(1) [OF that(3)] fetch_json_static [OF that(5)] by simp
    then have "py_str w2 = py_str w" by (rule py_str_static)
    then show ?thesis
      using that(3-6) block_lookup_adds [OF that(7) that(1) that(2)]
      by (simp add: create_ip_block_def found_dict_set dict_set_not_Nil ensure_path_dict_set_path)
  qed
  have p1: "create_ip_pool w = (Inr (?pp raw), w1)"
    if "\<not> has_key ''path'' raw" "has_key ''id'' raw"
      "list_lookup ''/policy/api/v1/infra/ip-pools''
          (\<lambda>b. dict_get b ''display_name'' = JStr ''ip-pool-vtep'') w = (Some raw, w1)"
    using pool_lookup_adds [OF that(3) that(1) that(2)]
    by (simp add: create_ip_pool_def found_dict_set dict_set_not_Nil)
  have slug: "replace_char CHR ''_'' CHR ''-''
                (replace_char CHR '' '' CHR ''-'' (lower ''ip-pool-vtep'')) = ''ip-pool-vtep''"
    by (simp add: replace_char_def lower_def lower_char_def)
  have p2: "create_ip_pool w = (Inr (?pp raw), w2)"
    if "\<not> has_key ''path'' raw" "has_key ''id'' raw"
      "get_existing_ip_pool ''ip-pool-vtep'' w = (r, w1)" "found r = None"
      "fetch_json (http_put ''/policy/api/v1/infra/ip-pools/ip-pool-vtep''
                        (Some ip_pool_payload)) w1 = (Inr raw, w2)"
    using that by (simp add: create_ip_pool_def slug ensure_path_adds ip_pool_prefix_def)
  have p3: "create_ip_pool w = (Inr (?pp raw), w3)"
    if "\<not> has_key ''path'' raw" "has_key ''id'' raw"
      "get_existing_ip_pool ''ip-pool-vtep'' w = (r, w1)" "found r = None"
      "fetch_json (http_put ''/policy/api/v1/infra/ip-pools/ip-pool-vtep''
                        (Some ip_pool_payload)) w1 = (Inl e, w2)"
      "duplicate_conflict e"
      "list_lookup ''/policy/api/v1/infra/ip-pools''
            (\<lambda>b. dict_get b ''display_name'' = JStr ''ip-pool-vtep'') w2 = (Some raw, w3)"
  proof -
    have "repr_container w2 = repr_container w"
      using get_existing_static(2) [OF that(3)] fetch_json_static [OF that(5)] by simp
    then have "py_str w2 = py_str w" by (rule py_str_static)
    then show ?thesis
      using that(3-6) pool_lookup_adds [OF that(7) that(1) that(2)]
      by (simp add: create_ip_pool_def slug found_dict_set dict_set_not_Nil)
  qed
  show ?thesis
    by (intro conjI impI; (elim conjE)?;
        (rule create_ip_block_has_path create_ip_pool_has_path b1 b2 b3 p1 p2 p3; assumption))
qed

theorem path_synthesised_for_block_and_pool_witness:
  "fst (create_ip_block (script_world [listing bare_items]))
     = Inr [(''display_name'', JStr ''ip-block-vtep''), (''id'', JStr ''blk-1''),
            (''path'', JStr ''/api/v1/pools/ip-blocks/blk-1'')]
   \<and> fst (create_ip_block (script_world [listing [], ok bare_created]))
     = Inr [(''id'', JStr ''new-1''), (''display_name'', JStr ''tnp''),
            (''path'', JStr ''/api/v1/pools/ip-blocks/new-1'')]
   \<and> fst (create_ip_block
            (script_world [listing [], Inl (Exc ''NsxError'' ''already exists''),
                           listing bare_items]))
     = Inr [(''display_name'', JStr ''ip-block-vtep''), (''id'', JStr ''blk-1''),
            (''path'', JStr ''/api/v1/pools/ip-blocks/blk-1'')]
   \<and> fst (create_ip_pool (script_world [listing bare_items]))
     = Inr [(''display_name'', JStr ''ip-pool-vtep''), (''id'', JInt 7),
            (''path'', JStr ''/policy/api/v1/infra/ip-pools/7'')]
   \<and> fst (create_ip_pool (script_world [listing [], ok bare_created]))
     = Inr [(''id'', JStr ''new-1''), (''display_name'', JStr ''tnp''),
            (''path'', JStr ''/policy/api/v1/infra/ip-pools/new-1'')]
   \<and> fst (create_ip_pool
            (script_world [listing [], Inl (Exc ''NsxError'' ''already exists''),
                           listing bare_items]))
     = Inr [(''display_name'', JStr ''ip-pool-vtep''), (''id'', JInt 7),
            (''path'', JStr ''/policy/api/v1/infra/ip-pools/7'')]
   \<and> has_key ''path''
        [(''display_name'', JStr ''ip-block-vtep''), (''id'', JStr ''blk-1''),
         (''path'', JStr ''/api/v1/pools/ip-blocks/blk-1'')]
   \<and> has_key ''path''
        [(''display_name'', JStr ''ip-pool-vtep''), (''id'', JInt 7),
         (''path'', JStr ''/policy/api/v1/infra/ip-pools/7'')]"
proof -
  let ?F = "script_world [listing bare_items]"
  let ?C = "script_world [listing [], ok bare_created]"
  let ?R = "script_world [listing [], Inl (Exc ''NsxError'' ''already exists''),
                          listing bare_items]"
  let ?ub = "''/api/v1/pools/ip-blocks''"
  let ?up = "''/policy/api/v1/infra/ip-pools''"
  let ?Pb = "\<lambda>b. dict_get b ''display_name'' = JStr ''ip-block-vtep''"
  let ?Pp = "\<lambda>b. dict_get b ''display_name'' = JStr ''ip-pool-vtep''"
  let ?rqb = "http_post ''/api/v1/pools/ip-blocks'' (Some ip_block_payload)"
  let ?rqp = "http_put ''/policy/api/v1/infra/ip-pools/ip-pool-vtep'' (Some ip_pool_payload)"
  note T = path_synthesised_for_block_and_pool
  have b1: "fst (create_ip_block ?F)
     = Inr [(''display_name'', JStr ''ip-block-vtep''), (''id'', JStr ''blk-1''),
            (''path'', JStr ''/api/v1/pools/ip-blocks/blk-1'')]"
    using T [where w = ?F and raw = "bare_items ! 0" and ?w1.0 = "snd (list_lookup ?ub ?Pb ?F)",
             THEN conjunct2, THEN conjunct2, rule_format, THEN conjunct1]
    by (simp add: eval_defs bare_items_def bare_created_def str_defs)
  have b2: "fst (create_ip_block ?C)
     = Inr [(''id'', JStr ''new-1''), (''display_name'', JStr ''tnp''),
            (''path'', JStr ''/api/v1/pools/ip-blocks/new-1'')]"
    using T [where w = ?C and raw = bare_created
               and r = "fst (get_existing_ip_block ''ip-block-vtep'' ?C)"
               and ?w1.0 = "snd (get_existing_ip_block ''ip-block-vtep'' ?C)"
               and ?w2.0 = "snd (fetch_json ?rqb (snd (get_existing_ip_block ''ip-block-vtep'' ?C)))",
             THEN conjunct2, THEN conjunct2, rule_format, THEN conjunct2, THEN conjunct1]
    by (simp add: eval_defs bare_items_def bare_created_def str_defs)
  have b3: "fst (create_ip_block ?R)
     = Inr [(''display_name'', JStr ''ip-block-vtep''), (''id'', JStr ''blk-1''),
            (''path'', JStr ''/api/v1/pools/ip-blocks/blk-1'')]"
    using T [where w = ?R and raw = "bare_items ! 0"
               and r = "fst (get_existing_ip_block ''ip-block-vtep'' ?R)"
               and ?w1.0 = "snd (get_existing_ip_block ''ip-block-vtep'' ?R)"
               and e = "Exc ''NsxError'' ''already exists''"
               and ?w2.0 = "snd (fetch_json ?rqb (snd (get_existing_ip_block ''ip-block-vtep'' ?R)))"
               and ?w3.0 = "snd (list_lookup ?ub ?Pb
                             (snd (fetch_json ?rqb (snd (get_existing_ip_block ''ip-block-vtep'' ?R)))))",
             THEN conjunct2, THEN conjunct2, rule_format, THEN conjunct2, THEN conjunct2,
             THEN conjunct1]
    by (simp add: eval_defs bare_items_def bare_created_def str_defs create_defs)
  have p1: "fst (create_ip_pool ?F)
     = Inr [(''display_name'', JStr ''ip-pool-vtep''), (''id'', JInt 7),
            (''path'', JStr ''/policy/api/v1/infra/ip-pools/7'')]"
    using T [where w = ?F and raw = "bare_items ! 1" and ?w1.0 = "snd (list_lookup ?up ?Pp ?F)",
             THEN conjunct2, THEN conjunct2, rule_format, THEN conjunct2, THEN conjunct2,
             THEN conjunct2, THEN conjunct1]
    by (simp add: eval_defs bare_items_def bare_created_def str_defs)
  have p2: "fst (create_ip_pool ?C)
     = Inr [(''id'', JStr ''new-1''), (''display_name'', JStr ''tnp''),
            (''path'', JStr ''/policy/api/v1/infra/ip-pools/new-1'')]"
    using T [where w = ?C and raw = bare_created
               and r = "fst (get_existing_ip_pool ''ip-pool-vtep'' ?C)"
               and ?w1.0 = "snd (get_existing_ip_pool ''ip-pool-vtep'' ?C)"
               and ?w2.0 = "snd (fetch_json ?rqp (snd (get_existing_ip_pool ''ip-pool-vtep'' ?C)))",
             THEN conjunct2, THEN conjunct2, rule_format, THEN conjunct2, THEN conjunct2,
             THEN conjunct2, THEN conjunct2, THEN conjunct1]
    by (simp add: eval_defs bare_items_def bare_created_def str_defs)
  have p3: "fst (create_ip_pool ?R)
     = Inr [(''display_name'', JStr ''ip-pool-vtep''), (''id'', JInt 7),
            (''path'', JStr ''/policy/api/v1/infra/ip-pools/7'')]"
    using T [where w = ?R and raw = "bare_items ! 1"
               and r = "fst (get_existing_ip_pool ''ip-pool-vtep'' ?R)"
               and ?w1.0 = "snd (get_existing_ip_pool ''ip-pool-vtep'' ?R)"
               and e = "Exc ''NsxError'' ''already exists''"
               and ?w2.0 = "snd (fetch_json ?rqp (snd (get_existing_ip_pool ''ip-pool-vtep'' ?R)))"
               and ?w3.0 = "snd (list_lookup ?up ?Pp
                             (snd (fetch_json ?rqp (snd (get_existing_ip_pool ''ip-pool-vtep'' ?R)))))",
             THEN conjunct2, THEN conjunct2, rule_format, THEN conjunct2, THEN conjunct2,
             THEN conjunct2, THEN conjunct2, THEN conjunct2]
    by (simp add: eval_defs bare_items_def bare_created_def str_defs create_defs)
  have g1: "has_key ''path''
        [(''display_name'', JStr ''ip-block-vtep''), (''id'', JStr ''blk-1''),
         (''path'', JStr ''/api/v1/pools/ip-blocks/blk-1'')]"
    using T [where w = ?F and w' = "snd (create_ip_block ?F)"
               and d = "[(''display_name'', JStr ''ip-block-vtep''), (''id'', JStr ''blk-1''),
                         (''path'', JStr ''/api/v1/pools/ip-blocks/blk-1'')]",
             THEN conjunct1] b1
    by (simp add: has_key_def prod_eq_iff)
  have g2: "has_key ''path''
        [(''display_name'', JStr ''ip-pool-vtep''), (''id'', JInt 7),
         (''path'', JStr ''/policy/api/v1/infra/ip-pools/7'')]"
    using T [where w = ?F and w' = "snd (create_ip_pool ?F)"
               and d = "[(''display_name'', JStr ''ip-pool-vtep''), (''id'', JInt 7),
                         (''path'', JStr ''/policy/api/v1/infra/ip-pools/7'')]",
             THEN conjunct2, THEN conjunct1] p1
    by (simp add: has_key_def prod_eq_iff)
  from b1 b2 b3 p1 p2 p3 g1 g2 show ?thesis by (intro conjI)
qed

section \<open>The orchestrator: the test of the setting\<close>

text \<open>
  C9 as stated does not hold for every invocation: the component is read from the
  database before the setting is tested. With an id for which \<open>session.get\<close> gives
  \<open>None\<close> and the setting "false", the run raises the \<open>AttributeError\<close> of
  \<open>zpod_component.zpod\<close>, not a \<open>ValueError\<close>; no request is issued.
\<close>

theorem missing_component_raises_attribute_error:
  "session_get (demo_db (JStr ''false'')) 2 = Inr None
   \<and> get_setting_value (demo_db (JStr ''false'')) ''ff_component_wait_for_status''
       = Inr (JStr ''false'')
   \<and> fst (execute_config_script (demo_db (JStr ''false'')) 2 (script_world []))
       = Inl (Exc ''AttributeError''
                (quoted ''NoneType'' @ '' object has no attribute '' @ quoted ''zpod''))
   \<and> fst (execute_config_script (demo_db (JStr ''false'')) 2 (script_world []))
       \<noteq> Inl (Exc ''ValueError'' ''ff_component_wait_for_status is not true'')
   \<and> calls (snd (execute_config_script (demo_db (JStr ''false'')) 2 (script_world []))) = []"
  by (simp add: execute_config_script_def demo_db_def attribute_error_def script_world_def)

text \<open>
  C9, amended. Whenever the setting \<open>ff_component_wait_for_status\<close> is not the string
  "true" (also when reading it raises), the run ends with an exception and the world is
  as before: no request has been issued. When moreover the session opens, the component
  is found and the setting is read, that exception is the \<open>ValueError\<close> of the test.
  Without a session the exception is the one of the session; without a component it is
  the one \<open>session.get\<close> raises, or the \<open>AttributeError\<close> of \<open>zpod_component.zpod\<close>;
  and an exception of the reading of the setting is raised as it is.
\<close>

theorem setting_guard:
  "get_setting_value db ''ff_component_wait_for_status'' \<noteq> Inr (JStr ''true'') \<longrightarrow>
     (\<exists>e. execute_config_script db zpod_component_id w = (Inl e, w))
     \<and> (get_session_ctx db = None \<and> session_get db zpod_component_id = Inr (Some c)
        \<and> get_setting_value db ''ff_component_wait_for_status'' = Inr setting \<longrightarrow>
        execute_config_script db zpod_component_id w
          = (Inl (Exc ''ValueError'' ''ff_component_wait_for_status is not true''), w))
     \<and> (get_session_ctx db = Some e1 \<longrightarrow>
        execute_config_script db zpod_component_id w = (Inl e1, w))
     \<and> (get_session_ctx db = None \<and> session_get db zpod_component_id = Inl e2 \<longrightarrow>
        execute_config_script db zpod_component_id w = (Inl e2, w))
     \<and> (get_session_ctx db = None \<and> session_get db zpod_component_id = Inr None \<longrightarrow>
        execute_config_script db zpod_component_id w
          = (Inl (Exc ''AttributeError''
                   (quoted ''NoneType'' @ '' object has no attribute '' @ quoted ''zpod'')), w))
     \<and> (get_session_ctx db = None \<and> session_get db zpod_component_id = Inr (Some c)
        \<and> get_setting_value db ''ff_component_wait_for_status'' = Inl e3 \<longrightarrow>
        execute_config_script db zpod_component_id w = (Inl e3, w))"
  by (auto simp: execute_config_script_def attribute_error_def
           split: option.splits sum.splits)

theorem setting_guard_witness:
  "execute_config_script (demo_db (JStr ''false'')) 1 (script_world [])
       = (Inl (Exc ''ValueError'' ''ff_component_wait_for_status is not true''), script_world [])
   \<and> calls (script_world []) = []
   \<and> execute_config_script (demo_db (JBool True)) 1 (script_world [listing inventory])
       = (Inl (Exc ''ValueError'' ''ff_component_wait_for_status is not true''),
          script_world [listing inventory])
   \<and> execute_config_script (demo_db JNull) 3 (script_world [listing inventory])
       = (Inl (Exc ''AttributeError''
                (quoted ''NoneType'' @ '' object has no attribute '' @ quoted ''zpod'')),
          script_world [listing inventory])"
proof -
  have s: "get_session_ctx (demo_db v) = None"
      "session_get (demo_db v) 1 = Inr (Some \<lparr>zpod = demo_zpod\<rparr>)"
      "session_get (demo_db v) 3 = Inr None"
      "get_setting_value (demo_db v) ''ff_component_wait_for_status'' = Inr v" for v
    by (simp_all add: demo_db_def)
  have a: "execute_config_script (demo_db (JStr ''false'')) 1 (script_world [])
       = (Inl (Exc ''ValueError'' ''ff_component_wait_for_status is not true''), script_world [])"
    using setting_guard [where db = "demo_db (JStr ''false'')" and zpod_component_id = 1
                           and w = "script_world []" and c = "\<lparr>zpod = demo_zpod\<rparr>"
                           and setting = "JStr ''false''"]
      s [of "JStr ''false''"]
    by simp
  have b: "execute_config_script (demo_db (JBool True)) 1 (script_world [listing inventory])
       = (Inl (Exc ''ValueError'' ''ff_component_wait_for_status is not true''),
          script_world [listing inventory])"
    using setting_guard [where db = "demo_db (JBool True)" and zpod_component_id = 1
                           and w = "script_world [listing inventory]"
                           and c = "\<lparr>zpod = demo_zpod\<rparr>" and setting = "JBool True"]
      s [of "JBool True"]
    by simp
  have c: "execute_config_script (demo_db JNull) 3 (script_world [listing inventory])
       = (Inl (Exc ''AttributeError''
                (quoted ''NoneType'' @ '' object has no attribute '' @ quoted ''zpod'')),
          script_world [listing inventory])"
    using setting_guard [where db = "demo_db JNull" and zpod_component_id = 3
                           and w = "script_world [listing inventory]"]
      s [of JNull]
    by simp
  have d: "calls (script_world []) = []" by (simp add: script_world_def)
  from a b c d show ?thesis by simp
qed

section \<open>The subnet precondition\<close>

text \<open>
  C6 as stated does not hold: the orchestrator tests that the key
  \<open>path\<close> is present, not that the path is non-empty. With an IP block whose path is
  the empty string the run reaches the subnet step and issues its three requests, the
  last of them the \<open>PUT\<close> that writes the subnet.
\<close>

theorem empty_path_reaches_subnet_write:
  "dict_get empty_path_block ''path'' = JStr ''''
   \<and> fst (execute_config_script (demo_db (JStr ''true'')) 1 empty_path_world)
       = Inl (Exc ''HTTPError'' ''500'')
   \<and> map (\<lambda>rq. (rq_method rq, rq_url rq))
        (calls (snd (execute_config_script (demo_db (JStr ''true'')) 1 empty_path_world)))
       = [(POST, ''/api/v1/eula/accept''),
          (GET, ''/api/v1/fabric/compute-managers''),
          (GET, ''/api/v1/fabric/compute-managers/cm-1/status''),
          (GET, ''/api/v1/pools/ip-blocks''),
          (GET, ''/policy/api/v1/infra/ip-pools''),
          (GET, ''/api/v1/infra/ip-pools/ip-pool-vtep/ip-subnets''),
          (GET, ''/api/v1/infra/ip-pools/ip-pool-vtep/ip-subnets/subnet-ip-pool-vtep''),
          (PUT, ''/api/v1/infra/ip-pools/ip-pool-vtep/ip-subnets/subnet-ip-pool-vtep'')]"
  by (simp add: eval_defs inventory_def demo_zpod_def create_defs empty_path_world_def
        empty_path_block_def demo_db_def
        execute_config_script_def configuration_steps_def seq_def pure_step_def status_step_def subnet_step_def
        check_compute_manager_status_def cm_status_loop.simps create_block_subnet_def
        split_last_def)

text \<open>
  C6, amended. Before the subnet is created the orchestrator tests that the IP-pool
  descriptor and then the IP-block descriptor have the key \<open>path\<close> (the value is not
  looked at). When the key is missing from one of them the step raises a \<open>ValueError\<close>
  that names the object and issues no request; the run ends there, with the world as
  the creation of the IP pool left it (for a run whose database reads give the
  component and the setting "true").
\<close>

theorem subnet_precondition:
  "(\<not> has_key ''path'' ip_pool \<longrightarrow>
      subnet_step ip_pool ip_block w
        = (Inl (Exc ''ValueError'' ''IP Pool object missing 'path' key''), w))
   \<and> (has_key ''path'' ip_pool \<and> \<not> has_key ''path'' ip_block \<longrightarrow>
      subnet_step ip_pool ip_block w
        = (Inl (Exc ''ValueError'' ''IP Block object missing 'path' key''), w))
   \<and> (get_session_ctx db = None
      \<and> session_get db zpod_component_id = Inr (Some c)
      \<and> get_setting_value db ''ff_component_wait_for_status'' = Inr (JStr ''true'')
      \<and> auth_by_zpod w = None
      \<and> fetch_json (http_post ''/api/v1/eula/accept'' None) w = (Inr eula, w1)
      \<and> compute_manager_step (zpod c) w1 = (Inr compute_manager, w2)
      \<and> status_step compute_manager w2 = (Inr u, w3)
      \<and> create_ip_block w3 = (Inr ip_block, w4)
      \<and> create_ip_pool w4 = (Inr ip_pool, w5)
      \<and> (\<not> has_key ''path'' ip_pool \<or> \<not> has_key ''path'' ip_block) \<longrightarrow>
      execute_config_script db zpod_component_id w
        = (Inl (Exc ''ValueError''
                 (if \<not> has_key ''path'' ip_pool then ''IP Pool object missing 'path' key''
                  else ''IP Block object missing 'path' key'')), w5))"
  by (auto simp: subnet_step_def quoted_def execute_config_script_def configuration_steps_def
        seq_def)

theorem subnet_precondition_witness:
  "fst (execute_config_script (demo_db (JStr ''true'')) 1 pathless_world)
     = Inl (Exc ''ValueError'' ''IP Pool object missing 'path' key'')
   \<and> map rq_method (calls (snd (execute_config_script (demo_db (JStr ''true'')) 1 pathless_world)))
     = [POST, GET, GET, GET, GET]
   \<and> subnet_step pathless_pool [] (script_world [])
     = (Inl (Exc ''ValueError'' ''IP Pool object missing 'path' key''), script_world [])
   \<and> subnet_step (inventory ! 2) pathless_pool (script_world [])
     = (Inl (Exc ''ValueError'' ''IP Block object missing 'path' key''), script_world [])"
proof -
  note T = subnet_precondition
  let ?W = pathless_world
  let ?w1 = "snd (fetch_json (http_post ''/api/v1/eula/accept'' None) ?W)"
  let ?w2 = "snd (compute_manager_step demo_zpod ?w1)"
  let ?w3 = "snd (status_step (inventory ! 0) ?w2)"
  let ?w4 = "snd (create_ip_block ?w3)"
  let ?w5 = "snd (create_ip_pool ?w4)"
  let ?blk = "[(''display_name'', JStr ''ip-block-vtep''), (''id'', JStr ''blk-1''),
               (''path'', JStr ''/api/v1/pools/ip-blocks/blk-1'')]"
  have w1: "fetch_json (http_post ''/api/v1/eula/accept'' None) ?W = (Inr [], ?w1)"
    by (simp add: eval_defs inventory_def demo_zpod_def pathless_world_def prod_eq_iff)
  have w2: "compute_manager_step demo_zpod ?w1 = (Inr (inventory ! 0), ?w2)"
    by (simp add: eval_defs inventory_def demo_zpod_def create_defs pathless_world_def
          prod_eq_iff)
  have w3: "status_step (inventory ! 0) ?w2 = (Inr (), ?w3)"
    by (simp add: eval_defs inventory_def demo_zpod_def create_defs orch_defs pathless_world_def
          prod_eq_iff)
  have w4: "create_ip_block ?w3 = (Inr ?blk, ?w4)"
    by (simp add: eval_defs inventory_def demo_zpod_def create_defs orch_defs pathless_world_def
          prod_eq_iff)
  have w5: "create_ip_pool ?w4 = (Inr pathless_pool, ?w5)"
    by (simp add: eval_defs inventory_def demo_zpod_def create_defs orch_defs pathless_world_def
          pathless_pool_def
                  prod_eq_iff)
  have a: "auth_by_zpod ?W = None" by (simp add: pathless_world_def script_world_def)
  have np: "\<not> has_key ''path'' pathless_pool" by (simp add: has_key_def pathless_pool_def)
  have hp: "has_key ''path'' (inventory ! 2)" by (simp add: has_key_def inventory_def)
  have run: "execute_config_script (demo_db (JStr ''true'')) 1 ?W
     = (Inl (Exc ''ValueError'' ''IP Pool object missing 'path' key''), ?w5)"
    using T [where w = ?W and db = "demo_db (JStr ''true'')" and zpod_component_id = 1
               and c = "\<lparr>zpod = demo_zpod\<rparr>" and ip_pool = pathless_pool and ip_block = ?blk
               and eula = "[]" and compute_manager = "inventory ! 0" and u = "()"
               and ?w1.0 = ?w1 and ?w2.0 = ?w2 and ?w3.0 = ?w3 and ?w4.0 = ?w4 and ?w5.0 = ?w5,
             THEN conjunct2, THEN conjunct2]
      a w1 w2 w3 w4 w5 np
    by (simp add: demo_db_def)
  have calls5: "map rq_method (calls ?w5) = [POST, GET, GET, GET, GET]"
    by (simp add: eval_defs inventory_def demo_zpod_def create_defs orch_defs pathless_world_def
          pathless_pool_def)
  have s1: "subnet_step pathless_pool [] (script_world [])
     = (Inl (Exc ''ValueError'' ''IP Pool object missing 'path' key''), script_world [])"
    using T [where ip_pool = pathless_pool and ip_block = "[]" and w = "script_world []",
             THEN conjunct1] np
    by simp
  have s2: "subnet_step (inventory ! 2) pathless_pool (script_world [])
     = (Inl (Exc ''ValueError'' ''IP Block object missing 'path' key''), script_world [])"
    using T [where ip_pool = "inventory ! 2" and ip_block = pathless_pool
               and w = "script_world []", THEN conjunct2, THEN conjunct1] np hp
    by simp
  from run calls5 s1 s2 show ?thesis by simp
qed

section \<open>The compute-manager poll is advisory\<close>

lemma rounds_step:
  fixes x :: int
  assumes "0 < x"
  shows "Suc (nat ((x - 10000000 + 9999999) div 10000000)) = nat ((x + 9999999) div 10000000)"
proof -
  have "(x - 10000000 + 9999999) div 10000000 = (x + 9999999) div 10000000 - 1"
    by simp
  moreover have "1 \<le> (x + 9999999) div 10000000" using assms by simp
  ultimately show ?thesis by simp
qed

lemma cm_status_loop_calls:
  "cm_status_loop u s t w = (b, w') \<Longrightarrow>
     length (calls w') \<le> length (calls w)
        + nat ((s + t * 1000000 - clock w + 9999999) div 10000000)"
proof (induction u s t w arbitrary: b w' rule: cm_status_loop.induct)
  case (1 u s t w)
  show ?case
  proof (cases "clock w - s < t * 1000000")
    case False
    with "1.prems" show ?thesis by (simp add: cm_status_loop.simps)
  next
    case True
    obtain r w1 where f: "fetch_json (http_get u) w = (r, w1)" by force
    have c1: "calls w1 = calls w @ [http_get u]" by (rule fetch_json_calls [OF f])
    have k1: "clock w \<le> clock w1" by (rule fetch_json_clock [OF f])
    let ?x = "s + t * 1000000 - clock w"
    have pos: "0 < ?x" using True by simp
    have one: "1 \<le> nat ((?x + 9999999) div 10000000)" using pos by simp
    let ?w2 = "sleep 10 w1"
    have again: "length (calls w') \<le> length (calls w) + nat ((?x + 9999999) div 10000000)"
      if "cm_status_loop u s t ?w2 = (b, w')"
        and ih: "length (calls w') \<le> length (calls ?w2)
                    + nat ((s + t * 1000000 - clock ?w2 + 9999999) div 10000000)"
    proof -
      have "s + t * 1000000 - clock ?w2 \<le> ?x - 10000000"
        using k1 by (simp add: sleep_def)
      then have "nat ((s + t * 1000000 - clock ?w2 + 9999999) div 10000000)
                   \<le> nat ((?x - 10000000 + 9999999) div 10000000)"
        by (intro nat_mono zdiv_mono1) simp_all
      moreover have "length (calls ?w2) = Suc (length (calls w))"
        using c1 by (simp add: sleep_def)
      ultimately have "length (calls w') \<le> length (calls w)
                         + Suc (nat ((?x - 10000000 + 9999999) div 10000000))"
        using ih by linarith
      then show ?thesis using rounds_step [OF pos] by simp
    qed
    show ?thesis
    proof (cases r)
      case (Inl e)
      with "1.prems" True f have run: "cm_status_loop u s t ?w2 = (b, w')"
        by (simp add: cm_status_loop.simps [of u s t w])
      have "length (calls w') \<le> length (calls ?w2)
                    + nat ((s + t * 1000000 - clock ?w2 + 9999999) div 10000000)"
        using "1.IH"(1) [OF True f [symmetric]] Inl run by simp
      then show ?thesis by (rule again [OF run])
    next
      case (Inr status_info)
      show ?thesis
      proof (cases "dict_get status_info ''connection_status'' = JStr ''UP''")
        case up: True
        with "1.prems" True f Inr have "w' = w1"
          by (simp add: cm_status_loop.simps [of u s t w])
        then show ?thesis using c1 one by simp
      next
        case down: False
        with "1.prems" True f Inr have run: "cm_status_loop u s t ?w2 = (b, w')"
          by (simp add: cm_status_loop.simps [of u s t w])
        have "length (calls w') \<le> length (calls ?w2)
                      + nat ((s + t * 1000000 - clock ?w2 + 9999999) div 10000000)"
          using "1.IH"(2) [OF True f [symmetric]] Inr down run by simp
        then show ?thesis by (rule again [OF run])
      qed
    qed
  qed
qed

text \<open>
  C7. \<open>check_compute_manager_status\<close> returns normally for every compute-manager
  id, every time limit and every world, that is for every sequence of outcomes of the
  status requests, the ones that raise included; the loop is a total function, so the
  call does return. When the loop ends because the time is over, exactly one more
  status request is issued, and when the loop has seen \<open>UP\<close> none is. The step of the
  orchestrator around it returns normally as well, also when the compute manager has
  no id, and the run goes on with the next step. The whole call issues at most one
  request for every ten seconds of the time limit, rounded up, and one more.
\<close>

theorem compute_manager_poll_never_raises:
  "fst (check_compute_manager_status compute_manager_id timeout w) = Inr ()
   \<and> fst (status_step compute_manager w) = Inr ()
   \<and> seq (status_step compute_manager) next_step w
       = next_step () (snd (status_step compute_manager w))
   \<and> (cm_status_loop
         (''/api/v1/fabric/compute-managers/'' @ py_str w compute_manager_id @ ''/status'')
         (clock w) timeout w = (False, w1) \<longrightarrow>
       calls (snd (check_compute_manager_status compute_manager_id timeout w))
         = calls w1 @ [http_get (''/api/v1/fabric/compute-managers/''
                                  @ py_str w compute_manager_id @ ''/status'')])
   \<and> (cm_status_loop
         (''/api/v1/fabric/compute-managers/'' @ py_str w compute_manager_id @ ''/status'')
         (clock w) timeout w = (True, w1) \<longrightarrow>
       snd (check_compute_manager_status compute_manager_id timeout w) = w1)
   \<and> length (calls (snd (check_compute_manager_status compute_manager_id timeout w)))
       \<le> length (calls w) + nat ((timeout * 1000000 + 9999999) div 10000000) + 1"
proof -
  have a: "fst (check_compute_manager_status c t v) = Inr ()" for c t v
    by (simp add: check_compute_manager_status_def Let_def
             split: prod.splits bool.splits sum.splits)
  have b: "fst (status_step compute_manager w) = Inr ()"
    by (simp add: status_step_def split: prod.splits sum.splits)
  have c: "seq (status_step compute_manager) next_step w
       = next_step () (snd (status_step compute_manager w))"
    using b by (cases "status_step compute_manager w") (simp add: seq_def)
  have d: "calls (snd (check_compute_manager_status compute_manager_id timeout w))
         = calls w1 @ [http_get (''/api/v1/fabric/compute-managers/''
                                  @ py_str w compute_manager_id @ ''/status'')]"
    if "cm_status_loop
         (''/api/v1/fabric/compute-managers/'' @ py_str w compute_manager_id @ ''/status'')
         (clock w) timeout w = (False, w1)"
    using that
    by (auto simp: check_compute_manager_status_def Let_def dest: fetch_json_calls
             split: prod.splits sum.splits)
  have e: "snd (check_compute_manager_status compute_manager_id timeout w) = w1"
    if "cm_status_loop
         (''/api/v1/fabric/compute-managers/'' @ py_str w compute_manager_id @ ''/status'')
         (clock w) timeout w = (True, w1)"
    using that by (simp add: check_compute_manager_status_def Let_def)
  have f: "length (calls (snd (check_compute_manager_status compute_manager_id timeout w)))
       \<le> length (calls w) + nat ((timeout * 1000000 + 9999999) div 10000000) + 1"
  proof -
    let ?u = "''/api/v1/fabric/compute-managers/'' @ py_str w compute_manager_id @ ''/status''"
    obtain b w1 where l: "cm_status_loop ?u (clock w) timeout w = (b, w1)" by force
    have "length (calls w1)
            \<le> length (calls w) + nat ((timeout * 1000000 + 9999999) div 10000000)"
      using cm_status_loop_calls [OF l] by simp
    moreover have "length (calls (snd (check_compute_manager_status compute_manager_id
                                         timeout w))) \<le> length (calls w1) + 1"
      using l
      by (cases b)
         (auto simp: check_compute_manager_status_def Let_def dest: fetch_json_calls
               split: prod.splits sum.splits)
    ultimately show ?thesis by linarith
  qed
  from a b c d e f show ?thesis by (intro conjI impI)
qed

theorem compute_manager_poll_never_raises_witness:
  "fst (check_compute_manager_status (JStr ''cm-1'') 15 (script_world [])) = Inr ()
   \<and> calls (snd (check_compute_manager_status (JStr ''cm-1'') 15 (script_world [])))
       = [http_get ''/api/v1/fabric/compute-managers/cm-1/status'',
          http_get ''/api/v1/fabric/compute-managers/cm-1/status'',
          http_get ''/api/v1/fabric/compute-managers/cm-1/status'']
   \<and> calls (snd (check_compute_manager_status (JStr ''cm-1'') 120
                    (script_world [ok [(''connection_status'', JStr ''DOWN'')],
                                   ok [(''connection_status'', JStr ''UP'')]])))
       = [http_get ''/api/v1/fabric/compute-managers/cm-1/status'',
          http_get ''/api/v1/fabric/compute-managers/cm-1/status'']
   \<and> fst (status_step [] (script_world [])) = Inr ()"
proof -
  note T = compute_manager_poll_never_raises
  let ?u = "''/api/v1/fabric/compute-managers/cm-1/status''"
  let ?D = "script_world []"
  let ?U = "script_world [ok [(''connection_status'', JStr ''DOWN'')],
                          ok [(''connection_status'', JStr ''UP'')]]"
  have loopD: "cm_status_loop ?u 0 15 ?D
                 = (False, ?D\<lparr>calls := [http_get ?u, http_get ?u], clock := 20000000\<rparr>)"
    by (simp add: eval_defs cm_status_loop.simps sleep_def)
  have loopU: "cm_status_loop ?u 0 120 ?U
                 = (True, ?U\<lparr>calls := [http_get ?u, http_get ?u], clock := 10000000\<rparr>)"
    by (simp add: eval_defs cm_status_loop.simps sleep_def)
  have a: "fst (check_compute_manager_status (JStr ''cm-1'') 15 ?D) = Inr ()"
    using T [where compute_manager_id = "JStr ''cm-1''" and timeout = 15 and w = ?D,
             THEN conjunct1] .
  have d: "calls (snd (check_compute_manager_status (JStr ''cm-1'') 15 ?D))
             = [http_get ?u, http_get ?u, http_get ?u]"
    using T [where compute_manager_id = "JStr ''cm-1''" and timeout = 15 and w = ?D
               and ?w1.0 = "?D\<lparr>calls := [http_get ?u, http_get ?u], clock := 20000000\<rparr>",
             THEN conjunct2, THEN conjunct2, THEN conjunct2, THEN conjunct1] loopD
    by (simp add: py_str_def script_world_def)
  have e: "calls (snd (check_compute_manager_status (JStr ''cm-1'') 120 ?U))
             = [http_get ?u, http_get ?u]"
    using T [where compute_manager_id = "JStr ''cm-1''" and timeout = 120 and w = ?U
               and ?w1.0 = "?U\<lparr>calls := [http_get ?u, http_get ?u], clock := 10000000\<rparr>",
             THEN conjunct2, THEN conjunct2, THEN conjunct2, THEN conjunct2,
             THEN conjunct1] loopU
    by (simp add: py_str_def script_world_def)
  have b: "fst (status_step [] ?D) = Inr ()"
    using T [where compute_manager = "[]" and w = ?D, THEN conjunct2, THEN conjunct1] .
  from a d e b show ?thesis by (intro conjI)
qed

section \<open>How the poll classifies a node\<close>

text \<open>
  C3 as stated does not hold. A node whose deployment status is
  \<open>INSTALL_SUCCESSFUL\<close> and whose status is \<open>DOWN\<close> is counted as preparing, not as
  failed; and a node that reports the status \<open>UP\<close> and no deployment status is counted
  as ready.
\<close>

theorem down_after_install_is_preparing:
  "classify_status (status_of ''DOWN'' ''INSTALL_SUCCESSFUL'') = Inr (Some Preparing)
   \<and> classify_status [(''status'', JStr ''UP'')] = Inr (Some Ready)"
  by (simp add: classify_status_def has_deployment_status_def status_of_def has_key_def
        dict_get_def)

lemma marker_string:
  "deployment_marker (JStr d) = Inr (sublist ''ERROR'' d \<or> sublist ''FAIL'' d)"
  by (simp add: deployment_marker_def split: bool.splits)

lemma install_successful_no_marker:
  "\<not> sublist ''ERROR'' ''INSTALL_SUCCESSFUL''" "\<not> sublist ''FAIL'' ''INSTALL_SUCCESSFUL''"
  by (simp_all add: sublist_code)

text \<open>
  C3, amended. For a status that has the key \<open>status\<close> (\<open>s\<close> its value):
  \<^item> with a deployment status \<open>d\<close> (a string under \<open>node_status\<close>), the node is Ready if
    and only if \<open>d\<close> is \<open>INSTALL_SUCCESSFUL\<close> and \<open>s\<close> is \<open>UP\<close>, Failed if and only if \<open>d\<close>
    contains \<open>ERROR\<close> or \<open>FAIL\<close>, and Preparing in every other case, whatever \<open>s\<close> is;
  \<^item> without a deployment status, the node is Ready if and only if \<open>s\<close> is \<open>UP\<close>, Failed
    if and only if \<open>s\<close> is \<open>DOWN\<close>, and Preparing in every other case.
  The round of the loop for that node records the outcome: nothing for Ready, the
  display name added to the preparing hosts or to the failed nodes otherwise.
\<close>

theorem node_classification:
  "(has_key ''status'' sd \<and> dict_get sd ''node_status'' = JObj ns
      \<and> map_of ns ''host_node_deployment_status'' = Some (JStr d) \<longrightarrow>
      classify_status sd =
        Inr (Some (if d = ''INSTALL_SUCCESSFUL'' \<and> dict_get sd ''status'' = JStr ''UP''
                   then Ready
                   else if sublist ''ERROR'' d \<or> sublist ''FAIL'' d then Failed
                   else Preparing)))
   \<and> (has_key ''status'' sd
      \<and> (\<not> has_key ''node_status'' sd
          \<or> (dict_get sd ''node_status'' = JObj ns
              \<and> map_of ns ''host_node_deployment_status'' = None)) \<longrightarrow>
      classify_status sd =
        Inr (Some (if dict_get sd ''status'' = JStr ''UP'' then Ready
                   else if dict_get sd ''status'' = JStr ''DOWN'' then Failed
                   else Preparing)))
   \<and> (fetch_json
         (http_get (''/api/v1/transport-nodes/''
                    @ py_str w (dict_get_default node ''id'' (JStr ''Unknown'')) @ ''/status''))
         w = (Inr sd, w1)
      \<and> classify_status sd = Inr (Some oc) \<and> status_prints sd = Inr () \<longrightarrow>
      node_step node t sd0 w =
        (Inr (case oc of
                Ready \<Rightarrow> t
              | Preparing \<Rightarrow>
                  t\<lparr>preparing_hosts :=
                      preparing_hosts t @ [dict_get_default node ''display_name'' (JStr ''Unknown'')],
                    all_ready := False\<rparr>
              | Failed \<Rightarrow>
                  t\<lparr>failed_nodes :=
                      failed_nodes t @ [dict_get_default node ''display_name'' (JStr ''Unknown'')],
                    all_ready := False\<rparr>),
         Some sd, w1))"
proof -
  have a: "classify_status sd =
        Inr (Some (if d = ''INSTALL_SUCCESSFUL'' \<and> dict_get sd ''status'' = JStr ''UP''
                   then Ready
                   else if sublist ''ERROR'' d \<or> sublist ''FAIL'' d then Failed
                   else Preparing))"
    if "has_key ''status'' sd" "dict_get sd ''node_status'' = JObj ns"
      "map_of ns ''host_node_deployment_status'' = Some (JStr d)"
  proof -
    have k: "has_key ''node_status'' sd"
      using that(2) by (auto simp: has_key_def dict_get_def split: option.splits)
    have h: "has_deployment_status sd = Inr True"
      using k that by (simp add: has_deployment_status_def has_key_def)
    show ?thesis
      using that h install_successful_no_marker
      by (auto simp: classify_status_def marker_string Let_def)
  qed
  have b: "classify_status sd =
        Inr (Some (if dict_get sd ''status'' = JStr ''UP'' then Ready
                   else if dict_get sd ''status'' = JStr ''DOWN'' then Failed
                   else Preparing))"
    if "has_key ''status'' sd"
      "\<not> has_key ''node_status'' sd
          \<or> (dict_get sd ''node_status'' = JObj ns
              \<and> map_of ns ''host_node_deployment_status'' = None)"
  proof -
    have h: "has_deployment_status sd = Inr False"
      using that(2) by (auto simp: has_deployment_status_def has_key_def)
    show ?thesis using that(1) h by (simp add: classify_status_def Let_def)
  qed
  have c: "node_step node t sd0 w =
        (Inr (case oc of
                Ready \<Rightarrow> t
              | Preparing \<Rightarrow>
                  t\<lparr>preparing_hosts :=
                      preparing_hosts t @ [dict_get_default node ''display_name'' (JStr ''Unknown'')],
                    all_ready := False\<rparr>
              | Failed \<Rightarrow>
                  t\<lparr>failed_nodes :=
                      failed_nodes t @ [dict_get_default node ''display_name'' (JStr ''Unknown'')],
                    all_ready := False\<rparr>),
         Some sd, w1)"
    if "fetch_json
         (http_get (''/api/v1/transport-nodes/''
                    @ py_str w (dict_get_default node ''id'' (JStr ''Unknown'')) @ ''/status''))
         w = (Inr sd, w1)"
      "classify_status sd = Inr (Some oc)" "status_prints sd = Inr ()"
    using that by (cases oc) (simp_all add: node_step_def Let_def record_outcome_def)
  show ?thesis
    by (intro conjI impI; (elim conjE)?; (rule a b c; assumption))
qed

theorem node_classification_witness:
  "classify_status (status_of ''UP'' ''INSTALL_SUCCESSFUL'') = Inr (Some Ready)
   \<and> classify_status (status_of ''UP'' ''INSTALL_FAILED'') = Inr (Some Failed)
   \<and> classify_status (status_of ''DOWN'' ''INSTALL_IN_PROGRESS'') = Inr (Some Preparing)
   \<and> classify_status [(''status'', JStr ''DOWN'')] = Inr (Some Failed)
   \<and> classify_status [(''status'', JStr ''DEGRADED''), (''node_status'', JObj [])]
       = Inr (Some Preparing)
   \<and> fst (node_step node1 fresh_tally None
             (script_world [ok (status_of ''DOWN'' ''INSTALL_SUCCESSFUL'')]))
       = Inr \<lparr>all_ready = False, failed_nodes = [], preparing_hosts = [JStr ''esxi-1'']\<rparr>"
proof -
  note T = node_classification
  let ?k = "''host_node_deployment_status''"
  have r: "classify_status (status_of ''UP'' ''INSTALL_SUCCESSFUL'') = Inr (Some Ready)"
    using T [where sd = "status_of ''UP'' ''INSTALL_SUCCESSFUL''"
               and ns = "[(?k, JStr ''INSTALL_SUCCESSFUL'')]" and d = "''INSTALL_SUCCESSFUL''",
             THEN conjunct1]
    by (simp add: status_of_def has_key_def dict_get_def)
  have f: "classify_status (status_of ''UP'' ''INSTALL_FAILED'') = Inr (Some Failed)"
    using T [where sd = "status_of ''UP'' ''INSTALL_FAILED''"
               and ns = "[(?k, JStr ''INSTALL_FAILED'')]" and d = "''INSTALL_FAILED''",
             THEN conjunct1]
    by (simp add: status_of_def has_key_def dict_get_def sublist_code)
  have p: "classify_status (status_of ''DOWN'' ''INSTALL_IN_PROGRESS'') = Inr (Some Preparing)"
    using T [where sd = "status_of ''DOWN'' ''INSTALL_IN_PROGRESS''"
               and ns = "[(?k, JStr ''INSTALL_IN_PROGRESS'')]" and d = "''INSTALL_IN_PROGRESS''",
             THEN conjunct1]
    by (simp add: status_of_def has_key_def dict_get_def sublist_code)
  have d: "classify_status [(''status'', JStr ''DOWN'')] = Inr (Some Failed)"
    using T [where sd = "[(''status'', JStr ''DOWN'')]", THEN conjunct2, THEN conjunct1]
    by (simp add: has_key_def dict_get_def)
  have g: "classify_status [(''status'', JStr ''DEGRADED''), (''node_status'', JObj [])]
             = Inr (Some Preparing)"
    using T [where sd = "[(''status'', JStr ''DEGRADED''), (''node_status'', JObj [])]"
               and ns = "[]", THEN conjunct2, THEN conjunct1]
    by (simp add: has_key_def dict_get_def)
  let ?W = "script_world [ok (status_of ''DOWN'' ''INSTALL_SUCCESSFUL'')]"
  let ?rq = "http_get (''/api/v1/transport-nodes/''
                @ py_str ?W (dict_get_default node1 ''id'' (JStr ''Unknown'')) @ ''/status'')"
  have fetch: "fetch_json ?rq ?W
                 = (Inr (status_of ''DOWN'' ''INSTALL_SUCCESSFUL''), snd (fetch_json ?rq ?W))"
    by (simp add: eval_defs status_of_def node1_def fresh_tally_def prod_eq_iff)
  have cls: "classify_status (status_of ''DOWN'' ''INSTALL_SUCCESSFUL'') = Inr (Some Preparing)"
    using T [where sd = "status_of ''DOWN'' ''INSTALL_SUCCESSFUL''"
               and ns = "[(?k, JStr ''INSTALL_SUCCESSFUL'')]" and d = "''INSTALL_SUCCESSFUL''",
             THEN conjunct1]
    by (simp add: status_of_def has_key_def dict_get_def sublist_code)
  have prints: "status_prints (status_of ''DOWN'' ''INSTALL_SUCCESSFUL'') = Inr ()"
    by (simp add: status_prints_def status_of_def has_key_def)
  have n: "fst (node_step node1 fresh_tally None ?W)
       = Inr \<lparr>all_ready = False, failed_nodes = [], preparing_hosts = [JStr ''esxi-1'']\<rparr>"
    using T [where w = ?W and node = node1 and sd = "status_of ''DOWN'' ''INSTALL_SUCCESSFUL''"
               and ?w1.0 = "snd (fetch_json ?rq ?W)" and oc = Preparing and t = fresh_tally
               and ?sd0.0 = None,
             THEN conjunct2, THEN conjunct2] fetch cls prints
    by (simp add: fresh_tally_def node1_def dict_get_default_def)
  from r f p d g n show ?thesis by (intro conjI)
qed

section \<open>The outcomes of an attempt\<close>

lemma failure_message_mentions_failure:
  "mentions_failure (Exc c (''Host preparation failed for: '' @ names))"
  by (simp add: mentions_failure_def lower_def lower_char_def sublist_code)

lemma quiet_messages:
  "\<not> mentions_failure (Exc c ''No transport nodes found for compute collection'')"
  "\<not> mentions_failure (Exc c ''Timeout waiting for host preparation'')"
  by (simp_all add: mentions_failure_def lower_def lower_char_def sublist_code)

text \<open>
  What one attempt does once the listing has been read: \<open>relevant\<close> are the nodes of
  the compute collection.
\<close>

lemma attempt_body_listed:
  assumes "fetch_json (http_get ''/api/v1/transport-nodes'') w = (Inr body, w1)"
    and "py_iter (dict_get_default body ''results'' (JArr [])) = Inr nodes"
    and "relevant_nodes cc nodes = Inr relevant"
  shows "attempt_body cc a sd w =
           (if relevant = [] then
              (if a < max_attempts then (Inr Again, sd, sleep 10 w1)
               else (Inl (Exc ''Exception''
                            ''No transport nodes found for compute collection''), sd, w1))
            else
              (case node_loop relevant
                      \<lparr>all_ready = True, failed_nodes = [], preparing_hosts = []\<rparr> sd w1 of
                 (Inl e, sd', w2) \<Rightarrow> (Inl e, sd', w2)
               | (Inr t, sd', w2) \<Rightarrow>
                   if failed_nodes t \<noteq> [] then
                     (case py_join '', '' (failed_nodes t) of
                        Inl e \<Rightarrow> (Inl e, sd', w2)
                      | Inr names \<Rightarrow>
                          (Inl (Exc ''Exception''
                                  (''Host preparation failed for: '' @ names)), sd', w2))
                   else if all_ready t then (Inr Done, sd', w2)
                   else if a < max_attempts then (Inr Again, sd', sleep 10 w2)
                   else (Inl (Exc ''Exception''
                                ''Timeout waiting for host preparation''), sd', w2)))"
  using assms by (simp add: attempt_body_def)

text \<open>
  Three outcomes of an attempt: no node found is retried and ends, after the last
  attempt, in the error "No transport nodes found"; nodes recorded as failed by a
  round that came to its end abort the poll at once with an error that names them;
  all nodes ready ends the poll at once.
\<close>

lemma no_nodes_is_retried:
  assumes "attempt < max_attempts"
    and "fetch_json (http_get ''/api/v1/transport-nodes'') w = (Inr body, w1)"
    and "py_iter (dict_get_default body ''results'' (JArr [])) = Inr nodes"
    and "relevant_nodes cc nodes = Inr []"
  shows "verify_loop cc attempt sd w =
           (if attempt + 1 < max_attempts then verify_loop cc (attempt + 1) sd (sleep 10 w1)
            else (Inl (Exc ''Exception''
                         ''No transport nodes found for compute collection''), w1))"
  using assms(1) attempt_body_listed [OF assms(2-4), of "attempt + 1" sd] quiet_messages(1)
  by (subst verify_loop.simps) simp

lemma failed_nodes_abort:
  assumes "attempt < max_attempts"
    and "fetch_json (http_get ''/api/v1/transport-nodes'') w = (Inr body, w1)"
    and "py_iter (dict_get_default body ''results'' (JArr [])) = Inr nodes"
    and "relevant_nodes cc nodes = Inr relevant" and "relevant \<noteq> []"
    and "node_loop relevant \<lparr>all_ready = True, failed_nodes = [], preparing_hosts = []\<rparr>
           sd w1 = (Inr t, sd', w2)"
    and "failed_nodes t \<noteq> []" and "strings_of 0 (failed_nodes t) = Inr names"
  shows "verify_loop cc attempt sd w =
           (Inl (Exc ''Exception'' (''Host preparation failed for: '' @ join '', '' names)), w2)"
  using assms(1,5-8) attempt_body_listed [OF assms(2-4), of "attempt + 1" sd]
    failure_message_mentions_failure
  by (subst verify_loop.simps) (simp add: py_join_def)

lemma all_ready_returns:
  assumes "attempt < max_attempts"
    and "fetch_json (http_get ''/api/v1/transport-nodes'') w = (Inr body, w1)"
    and "py_iter (dict_get_default body ''results'' (JArr [])) = Inr nodes"
    and "relevant_nodes cc nodes = Inr relevant" and "relevant \<noteq> []"
    and "node_loop relevant \<lparr>all_ready = True, failed_nodes = [], preparing_hosts = []\<rparr>
           sd w1 = (Inr t, sd', w2)"
    and "failed_nodes t = []" and "all_ready t"
  shows "verify_loop cc attempt sd w = (Inr (), w2)"
  using assms(1,5-8) attempt_body_listed [OF assms(2-4), of "attempt + 1" sd]
  by (subst verify_loop.simps) simp

subsection \<open>A status request that raises before any has succeeded\<close>

text \<open>
  C5 at a failing input. The only node of the compute collection is listed and its
  first status request raises. The \<open>except\<close> clause records the node as failed, but
  the code then reads \<open>status_data\<close>, which has no value yet; the
  \<open>UnboundLocalError\<close> escapes the attempt, its text (in every CPython wording)
  mentions neither "failed" nor "error", and the poll sleeps and tries again instead
  of aborting. On the second
  attempt the node is installed and up, and the poll returns normally after four
  requests and one sleep of ten seconds.
\<close>

theorem first_fetch_error_is_retried:
  "fst (attempt_body (JStr ''cc-1'') 1 None first_fetch_fails_world) = Inl unbound_status_data
   \<and> \<not> mentions_failure unbound_status_data
   \<and> fst (verify_nsx_configuration_status (JStr ''cc-1'') first_fetch_fails_world) = Inr ()
   \<and> map rq_url (calls (snd (verify_nsx_configuration_status (JStr ''cc-1'')
                                first_fetch_fails_world)))
       = [''/api/v1/transport-nodes'', ''/api/v1/transport-nodes/tn-1/status'',
          ''/api/v1/transport-nodes'', ''/api/v1/transport-nodes/tn-1/status'']
   \<and> clock (snd (verify_nsx_configuration_status (JStr ''cc-1'') first_fetch_fails_world))
       = 10000000"
  by (simp add: eval_defs status_of_def node1_def fresh_tally_def verify_defs verify_loop.simps
        first_fetch_fails_world_def
        sleep_def quoted_def lower_def lower_char_def sublist_code Let_def)

section \<open>Exceptions that escape an attempt\<close>

lemma fetch_json_raises:
  "responses w (length (calls w)) = Inl e \<Longrightarrow>
     fetch_json rq w =
       (Inl e, w\<lparr>calls := calls w @ [rq],
                  clock := clock w + int (latency w (length (calls w)))\<rparr>)"
  by (simp add: fetch_json_def send_def)

lemma attempt_body_raises:
  "fetch_json (http_get ''/api/v1/transport-nodes'') w = (Inl e, w1) \<Longrightarrow>
     attempt_body cc a sd w = (Inl e, sd, w1)"
  by (simp add: attempt_body_def)

lemma verify_loop_raise_step:
  assumes "attempt < max_attempts"
    and "attempt_body cc (attempt + 1) sd w = (Inl e, sd', w')"
  shows "verify_loop cc attempt sd w =
           (if mentions_failure e then (Inl e, w')
            else if attempt + 1 < max_attempts
            then verify_loop cc (attempt + 1) sd' (sleep 10 w')
            else (Inl e, w'))"
  using assms by (subst verify_loop.simps) simp

lemma verify_loop_all_raise:
  assumes "attempt < max_attempts"
    and "\<forall>k < max_attempts - attempt.
           \<exists>e. responses w (length (calls w) + k) = Inl e \<and> \<not> mentions_failure e"
  shows "\<exists>e w'. verify_loop cc attempt sd w = (Inl e, w')
           \<and> responses w (length (calls w) + (max_attempts - attempt - 1)) = Inl e
           \<and> calls w' = calls w @ replicate (max_attempts - attempt)
                                     (http_get ''/api/v1/transport-nodes'')
           \<and> clock w + int (max_attempts - attempt - 1) * 10000000 \<le> clock w'"
  using assms
proof (induction "max_attempts - attempt" arbitrary: attempt sd w)
  case 0
  then show ?case by simp
next
  case (Suc n)
  let ?rq = "http_get ''/api/v1/transport-nodes''"
  let ?w1 = "w\<lparr>calls := calls w @ [?rq],
               clock := clock w + int (latency w (length (calls w)))\<rparr>"
  from Suc.prems(2) Suc.hyps(2) obtain e0
    where e0: "responses w (length (calls w)) = Inl e0" "\<not> mentions_failure e0"
    by (metis add.right_neutral zero_less_Suc)
  have body: "attempt_body cc (attempt + 1) sd w = (Inl e0, sd, ?w1)"
    by (rule attempt_body_raises) (rule fetch_json_raises [OF e0(1)])
  have step: "verify_loop cc attempt sd w =
                (if attempt + 1 < max_attempts
                 then verify_loop cc (attempt + 1) sd (sleep 10 ?w1)
                 else (Inl e0, ?w1))"
    using verify_loop_raise_step [OF Suc.prems(1) body] e0(2) by simp
  show ?case
  proof (cases "attempt + 1 < max_attempts")
    case False
    then have last: "max_attempts - attempt = 1" using Suc.prems(1) by simp
    show ?thesis using step False e0(1) last by simp
  next
    case True
    let ?w2 = "sleep 10 ?w1"
    have n: "n = max_attempts - (attempt + 1)" using Suc.hyps(2) by simp
    have hyp: "\<forall>k < max_attempts - (attempt + 1).
                 \<exists>e. responses ?w2 (length (calls ?w2) + k) = Inl e \<and> \<not> mentions_failure e"
    proof (intro allI impI)
      fix k assume "k < max_attempts - (attempt + 1)"
      then have "Suc k < max_attempts - attempt" by simp
      with Suc.prems(2) obtain e
        where "responses w (length (calls w) + Suc k) = Inl e" "\<not> mentions_failure e"
        by blast
      then show "\<exists>e. responses ?w2 (length (calls ?w2) + k) = Inl e \<and> \<not> mentions_failure e"
        by (auto simp: sleep_def)
    qed
    from Suc.hyps(1) [OF n True hyp] obtain e w'
      where r: "verify_loop cc (attempt + 1) sd ?w2 = (Inl e, w')"
        "responses ?w2 (length (calls ?w2) + (max_attempts - (attempt + 1) - 1)) = Inl e"
        "calls w' = calls ?w2 @ replicate (max_attempts - (attempt + 1)) ?rq"
        "clock ?w2 + int (max_attempts - (attempt + 1) - 1) * 10000000 \<le> clock w'"
      by blast
    have resp: "responses ?w2 = responses w" by (simp add: sleep_def)
    have idx: "length (calls ?w2) + (max_attempts - (attempt + 1) - 1)
                 = length (calls w) + (max_attempts - attempt - 1)"
      using True by (simp add: sleep_def)
    have rep: "calls ?w2 @ replicate (max_attempts - (attempt + 1)) ?rq
                 = calls w @ replicate (max_attempts - attempt) ?rq"
      using True
      by (simp add: sleep_def replicate_Suc [symmetric] Suc_diff_Suc del: replicate_Suc)
    have clk: "clock w + int (max_attempts - attempt - 1) * 10000000
                 \<le> clock ?w2 + int (max_attempts - (attempt + 1) - 1) * 10000000"
      using True by (simp add: sleep_def algebra_simps of_nat_diff)
    have "verify_loop cc attempt sd w = (Inl e, w')" using step True r(1) by simp
    moreover have "responses w (length (calls w) + (max_attempts - attempt - 1)) = Inl e"
      using r(2) unfolding resp idx .
    moreover have "calls w' = calls w @ replicate (max_attempts - attempt) ?rq"
      using r(3) rep by simp
    moreover have "clock w + int (max_attempts - attempt - 1) * 10000000 \<le> clock w'"
      using r(4) clk by linarith
    ultimately show ?thesis by blast
  qed
qed

text \<open>
  C10. When an exception \<open>e\<close> escapes an attempt of the host-preparation poll:
  if the text of \<open>e\<close>, in lower case, contains "failed" or "error", the poll raises
  \<open>e\<close> at once, in the world the attempt left; otherwise, while fewer than 60
  attempts have been made, the poll sleeps ten seconds and makes the next attempt, and
  after the 60th attempt it raises \<open>e\<close>. An exception raised by the request that
  lists the transport nodes escapes the attempt. In particular, when the listing
  request raises at every attempt an exception of the second kind, the poll issues
  exactly 60 requests, sleeps 59 times, and raises the exception of the 60th.
\<close>

theorem attempt_exception_policy:
  "(attempt < 60 \<and> attempt_body cc (attempt + 1) sd w = (Inl e, sd', w') \<longrightarrow>
      verify_loop cc attempt sd w =
        (if sublist ''failed'' (lower (exc_str e)) \<or> sublist ''error'' (lower (exc_str e))
         then (Inl e, w')
         else if attempt + 1 < 60 then verify_loop cc (attempt + 1) sd' (sleep 10 w')
         else (Inl e, w')))
   \<and> (fetch_json (http_get ''/api/v1/transport-nodes'') w = (Inl e, w') \<longrightarrow>
      attempt_body cc (attempt + 1) sd w = (Inl e, sd, w'))
   \<and> ((\<forall>k<60. \<exists>x. responses w (length (calls w) + k) = Inl x
                 \<and> \<not> sublist ''failed'' (lower (exc_str x))
                 \<and> \<not> sublist ''error'' (lower (exc_str x))) \<longrightarrow>
      (\<exists>x w''. verify_nsx_configuration_status cc w = (Inl x, w'')
         \<and> responses w (length (calls w) + 59) = Inl x
         \<and> calls w'' = calls w @ replicate 60 (http_get ''/api/v1/transport-nodes'')
         \<and> clock w + 590000000 \<le> clock w''))"
proof -
  have a: "verify_loop cc attempt sd w =
        (if sublist ''failed'' (lower (exc_str e)) \<or> sublist ''error'' (lower (exc_str e))
         then (Inl e, w')
         else if attempt + 1 < 60 then verify_loop cc (attempt + 1) sd' (sleep 10 w')
         else (Inl e, w'))"
    if "attempt < 60" "attempt_body cc (attempt + 1) sd w = (Inl e, sd', w')"
    using verify_loop_raise_step [of attempt cc sd w e sd' w'] that
    by (simp add: max_attempts_def mentions_failure_def)
  have b: "attempt_body cc (attempt + 1) sd w = (Inl e, sd, w')"
    if "fetch_json (http_get ''/api/v1/transport-nodes'') w = (Inl e, w')"
    using that by (rule attempt_body_raises)
  have c: "\<exists>x w''. verify_nsx_configuration_status cc w = (Inl x, w'')
         \<and> responses w (length (calls w) + 59) = Inl x
         \<and> calls w'' = calls w @ replicate 60 (http_get ''/api/v1/transport-nodes'')
         \<and> clock w + 590000000 \<le> clock w''"
    if "\<forall>k<60. \<exists>x. responses w (length (calls w) + k) = Inl x
                 \<and> \<not> sublist ''failed'' (lower (exc_str x))
                 \<and> \<not> sublist ''error'' (lower (exc_str x))"
    using verify_loop_all_raise [of 0 w cc None] that
    by (simp add: max_attempts_def mentions_failure_def verify_nsx_configuration_status_def)
  show ?thesis
    by (intro conjI impI; (elim conjE)?; (rule a b c; assumption))
qed

theorem attempt_exception_policy_witness:
  "fst (verify_nsx_configuration_status (JStr ''cc-1'')
          (script_world [Inl (Exc ''HTTPError'' ''500 Server Error'')]))
     = Inl (Exc ''HTTPError'' ''500 Server Error'')
   \<and> calls (snd (verify_nsx_configuration_status (JStr ''cc-1'')
                    (script_world [Inl (Exc ''HTTPError'' ''500 Server Error'')])))
     = [http_get ''/api/v1/transport-nodes'']
   \<and> fst (verify_nsx_configuration_status (JStr ''cc-1'') (script_world []))
     = Inl (Exc ''ConnectionError'' ''connection refused'')
   \<and> length (calls (snd (verify_nsx_configuration_status (JStr ''cc-1'') (script_world []))))
     = 60"
proof -
  note T = attempt_exception_policy
  let ?E = "script_world [Inl (Exc ''HTTPError'' ''500 Server Error'')]"
  let ?e = "Exc ''HTTPError'' ''500 Server Error''"
  let ?rq = "http_get ''/api/v1/transport-nodes''"
  let ?E1 = "snd (fetch_json ?rq ?E)"
  have f: "fetch_json ?rq ?E = (Inl ?e, ?E1)"
    by (simp add: eval_defs prod_eq_iff)
  have body: "attempt_body (JStr ''cc-1'') (0 + 1) None ?E = (Inl ?e, None, ?E1)"
    using T [where w = ?E and e = ?e and w' = ?E1 and attempt = 0 and sd = None
               and cc = "JStr ''cc-1''", THEN conjunct2, THEN conjunct1] f
    by simp
  have now: "verify_loop (JStr ''cc-1'') 0 None ?E = (Inl ?e, ?E1)"
    using T [where w = ?E and e = ?e and w' = ?E1 and attempt = 0 and sd = None
               and sd' = None and cc = "JStr ''cc-1''", THEN conjunct1] body
    by (simp add: lower_def lower_char_def sublist_code)
  have c1: "calls ?E1 = [?rq]" by (simp add: eval_defs)
  let ?D = "script_world []"
  have all: "\<forall>k<60. \<exists>x. responses ?D (length (calls ?D) + k) = Inl x
                 \<and> \<not> sublist ''failed'' (lower (exc_str x))
                 \<and> \<not> sublist ''error'' (lower (exc_str x))"
    by (simp add: script_world_def lower_def lower_char_def sublist_code)
  from T [where w = ?D and cc = "JStr ''cc-1''", THEN conjunct2, THEN conjunct2, THEN mp,
          OF all]
  obtain x w'' where r: "verify_nsx_configuration_status (JStr ''cc-1'') ?D = (Inl x, w'')"
    "responses ?D (length (calls ?D) + 59) = Inl x"
    "calls w'' = calls ?D @ replicate 60 ?rq"
    by blast
  have x: "x = Exc ''ConnectionError'' ''connection refused''"
    using r(2) by (simp add: script_world_def)
  have c0: "calls ?D = []" by (simp add: script_world_def)
  show ?thesis
    using now c1 r(1) r(3) x c0 by (simp add: verify_nsx_configuration_status_def)
qed

end
